theory Spec2Isabelle
  imports Main "HOL-Library.Sublist"
begin

section \<open>The file organizer: strings and paths\<close>

text \<open>
  A shallow embedding of \<^verbatim>\<open>file_organizer.py\<close>. Python strings are modelled as
  \<^typ>\<open>string\<close>, paths are POSIX paths compared as strings (no normalisation, no symbolic
  links). The library routines the program calls (\<^verbatim>\<open>os.path\<close>, \<^verbatim>\<open>os.makedirs\<close>,
  \<^verbatim>\<open>shutil.move\<close>, \<^verbatim>\<open>hashlib\<close>, \<^verbatim>\<open>time\<close>) are modelled below or taken as
  parameters; every exception they can raise is a value of \<open>os_error\<close>. The sequence that
  \<^verbatim>\<open>os.walk\<close> yields is an argument of the run; the file system is a state that the
  run reads and changes file by file.
\<close>

type_synonym path = string

text \<open>The module constant \<^verbatim>\<open>FILE_CATEGORIES\<close>: a dictionary, kept in insertion order.\<close>

definition FILE_CATEGORIES :: "(string \<times> string list) list" where
  "FILE_CATEGORIES =
    [(''Dokumente'', [''.pdf'', ''.doc'', ''.docx'', ''.txt'', ''.rtf'', ''.odt'', ''.xls'',
                     ''.xlsx'', ''.ppt'', ''.pptx'', ''.csv'', ''.ods'', ''.odp'']),
     (''Bilder'', [''.jpg'', ''.jpeg'', ''.png'', ''.gif'', ''.bmp'', ''.svg'', ''.tiff'',
                  ''.ico'', ''.webp'', ''.heic'', ''.raw'', ''.psd'', ''.ai'']),
     (''Videos'', [''.mp4'', ''.mkv'', ''.avi'', ''.mov'', ''.wmv'', ''.flv'', ''.webm'',
                  ''.m4v'', ''.mpg'', ''.mpeg'', ''.3gp'']),
     (''Audio'', [''.mp3'', ''.wav'', ''.ogg'', ''.flac'', ''.aac'', ''.wma'', ''.m4a'',
                 ''.mid'', ''.midi'']),
     (''Archive'', [''.zip'', ''.rar'', ''.7z'', ''.tar'', ''.gz'', ''.bz2'', ''.xz'', ''.iso'']),
     (''Code'', [''.py'', ''.java'', ''.cpp'', ''.c'', ''.h'', ''.hpp'', ''.js'', ''.html'',
                ''.css'', ''.php'', ''.rb'', ''.go'', ''.rs'', ''.swift'', ''.kt'', ''.json'',
                ''.xml'', ''.sql'', ''.sh'', ''.bat'', ''.ps1'']),
     (''Programme'', [''.exe'', ''.msi'', ''.app'', ''.dmg'', ''.deb'', ''.rpm'']),
     (''Andere'', [])]"

definition category_names :: "string list" where
  "category_names = map fst FILE_CATEGORIES"

text \<open>
  \<^verbatim>\<open>str.lower()\<close>. A string is the sequence of the bytes of its UTF-8 form. The ASCII
  capitals become small letters, and so does the one character outside ASCII whose lower case
  is an ASCII letter: the KELVIN SIGN U+212A (the bytes \<open>E2 84 AA\<close>), which becomes \<open>k\<close>.
  Every other character outside ASCII has a lower case outside ASCII; its bytes are kept as
  they are, and the result is outside ASCII as Python's is.
\<close>

definition lower_char :: "char \<Rightarrow> char" where
  "lower_char c =
     (case map_of (zip ''ABCDEFGHIJKLMNOPQRSTUVWXYZ'' ''abcdefghijklmnopqrstuvwxyz'') c of
        Some d \<Rightarrow> d
      | None \<Rightarrow> c)"

fun lower :: "string \<Rightarrow> string" where
  "lower (c1 # c2 # c3 # cs) =
     (if c1 = CHR 0xE2 \<and> c2 = CHR 0x84 \<and> c3 = CHR 0xAA then CHR ''k'' # lower cs
      else lower_char c1 # lower (c2 # c3 # cs))"
| "lower (c # cs) = lower_char c # lower cs"
| "lower [] = []"

text \<open>\<^verbatim>\<open>str(n)\<close> for a non-negative integer: its decimal digits.\<close>

fun str_nat :: "nat \<Rightarrow> string" where
  "str_nat n =
     (if n < 10 then [''0123456789'' ! n]
      else str_nat (n div 10) @ [''0123456789'' ! (n mod 10)])"

declare str_nat.simps [simp del]

text \<open>\<^verbatim>\<open>s.rfind(c)\<close>: the index of the last occurrence of \<open>c\<close>, or \<open>-1\<close>.\<close>

fun rfind_from :: "char \<Rightarrow> string \<Rightarrow> nat \<Rightarrow> int \<Rightarrow> int" where
  "rfind_from c [] i found = found"
| "rfind_from c (x # xs) i found = rfind_from c xs (i + 1) (if x = c then int i else found)"

definition rfind :: "char \<Rightarrow> string \<Rightarrow> int" where
  "rfind c s = rfind_from c s 0 (- 1)"

text \<open>\<^verbatim>\<open>s.rstrip('/')\<close>.\<close>

definition rstrip_sep :: "string \<Rightarrow> string" where
  "rstrip_sep s = rev (dropWhile (\<lambda>c. c = CHR ''/'') (rev s))"

text \<open>\<^verbatim>\<open>posixpath.join(a, b)\<close> with two arguments.\<close>

definition path_join :: "path \<Rightarrow> string \<Rightarrow> path" where
  "path_join a b =
     (if b \<noteq> [] \<and> hd b = CHR ''/'' then b
      else if a = [] \<or> last a = CHR ''/'' then a @ b
      else a @ ''/'' @ b)"

text \<open>
  \<^verbatim>\<open>posixpath.splitext(p)\<close>: the extension starts at the last dot of the last path
  component, unless only dots precede it there.
\<close>

definition splitext :: "string \<Rightarrow> string \<times> string" where
  "splitext p =
     (let sepIndex = rfind (CHR ''/'') p;
          dotIndex = rfind (CHR ''.'') p
      in if dotIndex > sepIndex \<and>
            list_ex (\<lambda>k. p ! k \<noteq> CHR ''.'') [nat (sepIndex + 1) ..< nat dotIndex]
         then (take (nat dotIndex) p, drop (nat dotIndex) p)
         else (p, []))"

text \<open>\<^verbatim>\<open>posixpath.dirname(p)\<close> and \<^verbatim>\<open>posixpath.basename(p.rstrip('/'))\<close>.\<close>

definition dirname :: "path \<Rightarrow> path" where
  "dirname p =
     (let head = take (nat (rfind (CHR ''/'') p + 1)) p
      in if head \<noteq> [] \<and> rstrip_sep head \<noteq> [] then rstrip_sep head else head)"

definition basename :: "path \<Rightarrow> string" where
  "basename p = (let q = rstrip_sep p in drop (nat (rfind (CHR ''/'') q + 1)) q)"

text \<open>The path itself and the directories above it, outermost first.\<close>

fun ancestors_from :: "path \<Rightarrow> string \<Rightarrow> path list" where
  "ancestors_from acc [] = [acc]"
| "ancestors_from acc (c # cs) =
     (if c = CHR ''/'' \<and> acc \<noteq> [] then acc # ancestors_from (acc @ [c]) cs
      else ancestors_from (acc @ [c]) cs)"

definition ancestors :: "path \<Rightarrow> path list" where
  "ancestors p = ancestors_from [] p"

text \<open>The segments of a path: the pieces between the separators.\<close>

fun segments_from :: "string \<Rightarrow> string \<Rightarrow> string list" where
  "segments_from acc [] = [acc]"
| "segments_from acc (c # cs) =
     (if c = CHR ''/'' then acc # segments_from [] cs else segments_from (acc @ [c]) cs)"

definition segments :: "path \<Rightarrow> string list" where
  "segments p = segments_from [] p"


section \<open>The file system\<close>

text \<open>
  Regular files with their content, modification time and read permission; the set of
  directories; and the paths at which nothing may be created, written, replaced or removed
  (the place denies writing).
\<close>

datatype os_error =
    FileNotFoundError
  | PermissionError
  | NotADirectoryError
  | FileExistsError
  | IsADirectoryError
  | SameFileError
  | DestinationExistsError

record regular_file =
  content :: string
  mtime :: nat
  readable :: bool

record filesystem =
  files :: "path \<rightharpoonup> regular_file"
  dirs :: "path set"
  write_denied :: "path set"

definition path_exists :: "filesystem \<Rightarrow> path \<Rightarrow> bool" where
  "path_exists d p = (files d p \<noteq> None \<or> p \<in> dirs d)"

definition getmtime :: "filesystem \<Rightarrow> path \<Rightarrow> os_error + nat" where
  "getmtime d p = (case files d p of None \<Rightarrow> Inl FileNotFoundError | Some f \<Rightarrow> Inr (mtime f))"

text \<open>
  \<^verbatim>\<open>os.makedirs\<close>: the missing directories of the chain are created outermost first; an
  exception leaves the ones already created.
\<close>

fun mkdir_chain :: "filesystem \<Rightarrow> path list \<Rightarrow> os_error option \<times> filesystem" where
  "mkdir_chain d [] = (None, d)"
| "mkdir_chain d (a # as) =
     (if a \<in> dirs d then mkdir_chain d as
      else if files d a \<noteq> None then (Some NotADirectoryError, d)
      else if a \<in> write_denied d then (Some PermissionError, d)
      else mkdir_chain (d\<lparr>dirs := insert a (dirs d)\<rparr>) as)"

definition makedirs :: "filesystem \<Rightarrow> path \<Rightarrow> os_error option \<times> filesystem" where
  "makedirs d p =
     (if path_exists d p then (Some FileExistsError, d) else mkdir_chain d (ancestors p))"

text \<open>
  \<^verbatim>\<open>os.rename(src, dst)\<close> for a regular file on one file system: it replaces whatever
  file is at the destination, and a failure changes nothing.
\<close>

definition os_rename :: "filesystem \<Rightarrow> path \<Rightarrow> path \<Rightarrow> os_error option \<times> filesystem" where
  "os_rename d src dst =
     (case files d src of
        None \<Rightarrow> (Some FileNotFoundError, d)
      | Some f \<Rightarrow>
          if dst \<in> dirs d then (Some IsADirectoryError, d)
          else if dirname dst \<noteq> [] \<and> dirname dst \<notin> dirs d
            then (Some (if files d (dirname dst) \<noteq> None then NotADirectoryError
                        else FileNotFoundError), d)
          else if src \<in> write_denied d \<or> dst \<in> write_denied d then (Some PermissionError, d)
          else (None, d\<lparr>files := (files d)(src := None, dst \<mapsto> f)\<rparr>))"

text \<open>
  \<^verbatim>\<open>shutil.copy2(src, dst)\<close>: the source is read and written to the destination with its
  modification time and permissions. \<^verbatim>\<open>os.unlink(p)\<close> removes a file.
\<close>

definition copy2 :: "filesystem \<Rightarrow> path \<Rightarrow> path \<Rightarrow> os_error option \<times> filesystem" where
  "copy2 d src dst =
     (case files d src of
        None \<Rightarrow> (Some FileNotFoundError, d)
      | Some f \<Rightarrow>
          if src = dst then (Some SameFileError, d)
          else if \<not> readable f then (Some PermissionError, d)
          else if dst \<in> dirs d then (Some IsADirectoryError, d)
          else if dirname dst \<noteq> [] \<and> dirname dst \<notin> dirs d
            then (Some (if files d (dirname dst) \<noteq> None then NotADirectoryError
                        else FileNotFoundError), d)
          else if dst \<in> write_denied d then (Some PermissionError, d)
          else (None, d\<lparr>files := (files d)(dst \<mapsto> f)\<rparr>))"

definition os_unlink :: "filesystem \<Rightarrow> path \<Rightarrow> os_error option \<times> filesystem" where
  "os_unlink d p =
     (case files d p of
        None \<Rightarrow> (Some FileNotFoundError, d)
      | Some f \<Rightarrow>
          if p \<in> write_denied d then (Some PermissionError, d)
          else (None, d\<lparr>files := (files d)(p := None)\<rparr>))"

text \<open>
  \<^verbatim>\<open>shutil.move(src, dst)\<close> for a source that is not a directory: a destination that is a
  directory receives the file under its own name and must not hold that name yet. The file
  is renamed; when the renaming raises, it is copied and the source is then removed, so that
  a removal that fails leaves the copy at the destination.
\<close>

definition move :: "filesystem \<Rightarrow> path \<Rightarrow> path \<Rightarrow> os_error option \<times> filesystem" where
  "move d src dst =
     (let real_dst = (if dst \<in> dirs d then path_join dst (basename src) else dst)
      in if dst \<in> dirs d \<and> path_exists d real_dst then (Some DestinationExistsError, d)
         else (case os_rename d src real_dst of
                 (None, d') \<Rightarrow> (None, d')
               | (Some rename_error, d') \<Rightarrow>
                   (case copy2 d src real_dst of
                      (Some err, d'') \<Rightarrow> (Some err, d'')
                    | (None, d'') \<Rightarrow> os_unlink d'' src)))"


section \<open>The program\<close>

text \<open>
  What the program reads from outside the file system: the MD5 digest of a content, the
  \<^verbatim>\<open>%Y-%m\<close> rendering of a modification time in local time, and the value of
  \<^verbatim>\<open>int(time.time())\<close> at the moment the file at a source path is processed.
\<close>

record env =
  md5_hexdigest :: "string \<Rightarrow> string"
  strftime_ym :: "nat \<Rightarrow> string"
  time_now :: "path \<Rightarrow> nat"

text \<open>\<^verbatim>\<open>get_file_hash\<close>: every exception is caught inside and turned into \<^verbatim>\<open>None\<close>.\<close>

definition get_file_hash :: "env \<Rightarrow> filesystem \<Rightarrow> path \<Rightarrow> string option" where
  "get_file_hash e d file_path =
     (case files d file_path of
        None \<Rightarrow> None
      | Some f \<Rightarrow> if readable f then Some (md5_hexdigest e (content f)) else None)"

text \<open>\<^verbatim>\<open>get_category_for_extension\<close>: the loop over the items of the table.\<close>

fun first_category :: "(string \<times> string list) list \<Rightarrow> string \<Rightarrow> string" where
  "first_category [] ext = ''Andere''"
| "first_category ((category, extensions) # rest) ext =
     (if ext \<in> set extensions then category else first_category rest ext)"

definition get_category_for_extension :: "string \<Rightarrow> string" where
  "get_category_for_extension ext = first_category FILE_CATEGORIES (lower ext)"

definition create_directory_if_not_exists ::
    "filesystem \<Rightarrow> path \<Rightarrow> os_error option \<times> filesystem" where
  "create_directory_if_not_exists d directory =
     (if \<not> path_exists d directory then makedirs d directory else (None, d))"

text \<open>The dictionary \<^verbatim>\<open>stats\<close>; \<^verbatim>\<open>kategorien\<close> is a dictionary in insertion order.\<close>

record run_stats =
  verschoben :: nat
  uebersprungen :: nat
  fehler :: nat
  kategorien :: "(string \<times> nat) list"

definition initial_stats :: run_stats where
  "initial_stats = \<lparr>verschoben = 0, uebersprungen = 0, fehler = 0, kategorien = []\<rparr>"

text \<open>Lines 113-114: \<^verbatim>\<open>if category not in k: k[category] = 0\<close>.\<close>

definition init_category :: "string \<Rightarrow> (string \<times> nat) list \<Rightarrow> (string \<times> nat) list" where
  "init_category category k = (if category \<in> fst ` set k then k else k @ [(category, 0)])"

text \<open>Line 152: \<^verbatim>\<open>k[category] += 1\<close>, on a key that lines 113-114 have put there.\<close>

definition incr_category :: "string \<Rightarrow> (string \<times> nat) list \<Rightarrow> (string \<times> nat) list" where
  "incr_category category k = map (\<lambda>(c, n). if c = category then (c, n + 1) else (c, n)) k"

record config =
  destination_dir :: path
  preview :: bool
  include_date :: bool
  handle_duplicates :: string

record run_state =
  stats :: run_stats
  file_hashes :: "string option \<rightharpoonup> path"
  disk :: filesystem

text \<open>Line 105: \<^verbatim>\<open>any(category in root for category in FILE_CATEGORIES.keys())\<close>.\<close>

definition already_organized :: "path \<Rightarrow> bool" where
  "already_organized root = list_ex (\<lambda>category. sublist category root) category_names"

text \<open>
  Lines 116-124: the target directory, with the date folder when asked for. The result is
  the exception or the directory, and the file system as the step leaves it.
\<close>

definition plan_target_dir ::
    "env \<Rightarrow> config \<Rightarrow> filesystem \<Rightarrow> path \<Rightarrow> string \<Rightarrow> (os_error + path) \<times> filesystem" where
  "plan_target_dir e cfg d source_path category =
     (let target_dir = path_join (destination_dir cfg) category
      in if include_date cfg then
           (case getmtime d source_path of
              Inl err \<Rightarrow> (Inl err, d)
            | Inr file_time \<Rightarrow>
                let target_dir = path_join target_dir (strftime_ym e file_time)
                in if \<not> preview cfg then
                     (case create_directory_if_not_exists d target_dir of
                        (Some err, d') \<Rightarrow> (Inl err, d')
                      | (None, d') \<Rightarrow> (Inr target_dir, d'))
                   else (Inr target_dir, d))
         else (Inr target_dir, d))"

text \<open>The truth value of \<^verbatim>\<open>file_hash\<close> in \<^verbatim>\<open>if file_hash and ...\<close>.\<close>

definition truthy :: "string option \<Rightarrow> bool" where
  "truthy h = (case h of None \<Rightarrow> False | Some s \<Rightarrow> s \<noteq> [])"

text \<open>
  Lines 126-143: the target path and the duplicate index after the collision check. The
  path is \<open>None\<close> when the branch ends in \<^verbatim>\<open>continue\<close>.
\<close>

definition resolve_target ::
    "env \<Rightarrow> config \<Rightarrow> filesystem \<Rightarrow> (string option \<rightharpoonup> path) \<Rightarrow> path \<Rightarrow> path \<Rightarrow> string
      \<Rightarrow> path option \<times> (string option \<rightharpoonup> path)" where
  "resolve_target e cfg d hashes source_path target_dir filename =
     (let target_path = path_join target_dir filename
      in if path_exists d target_path then
           (let file_hash = get_file_hash e d source_path
            in if truthy file_hash \<and> hashes file_hash \<noteq> None then
                 (if handle_duplicates cfg = ''skip'' then (None, hashes)
                  else if handle_duplicates cfg = ''rename'' then
                    (let (name, ext) = splitext filename;
                         timestamp = time_now e source_path;
                         new_filename = name @ ''_'' @ str_nat timestamp @ ext;
                         target_path = path_join target_dir new_filename
                     in (Some target_path, hashes(file_hash \<mapsto> target_path)))
                  else (Some target_path, hashes(file_hash \<mapsto> target_path)))
               else (Some target_path, hashes(file_hash \<mapsto> target_path)))
         else (Some target_path, hashes))"

definition count_skipped :: "run_stats \<Rightarrow> run_stats" where
  "count_skipped s = s\<lparr>uebersprungen := uebersprungen s + 1\<rparr>"

definition count_error :: "run_stats \<Rightarrow> run_stats" where
  "count_error s = s\<lparr>fehler := fehler s + 1\<rparr>"

definition count_moved :: "string \<Rightarrow> run_stats \<Rightarrow> run_stats" where
  "count_moved category s =
     s\<lparr>verschoben := verschoben s + 1, kategorien := incr_category category (kategorien s)\<rparr>"

text \<open>
  Lines 110-152, the body of the \<^verbatim>\<open>try\<close>: the exception that leaves it, if any, and
  the state at that moment.
\<close>

definition try_body ::
    "env \<Rightarrow> config \<Rightarrow> run_state \<Rightarrow> path \<Rightarrow> string \<Rightarrow> os_error option \<times> run_state" where
  "try_body e cfg st root filename =
     (let source_path = path_join root filename;
          (_, ext) = splitext filename;
          category = get_category_for_extension ext;
          st1 = st\<lparr>stats := (stats st)\<lparr>kategorien := init_category category (kategorien (stats st))\<rparr>\<rparr>
      in case plan_target_dir e cfg (disk st1) source_path category of
           (Inl err, d') \<Rightarrow> (Some err, st1\<lparr>disk := d'\<rparr>)
         | (Inr target_dir, d') \<Rightarrow>
             (case resolve_target e cfg d' (file_hashes st1) source_path target_dir filename of
                (None, hashes') \<Rightarrow>
                  (None, st1\<lparr>stats := count_skipped (stats st1), file_hashes := hashes', disk := d'\<rparr>)
              | (Some target_path, hashes') \<Rightarrow>
                  if preview cfg then
                    (None, st1\<lparr>stats := count_moved category (stats st1),
                               file_hashes := hashes', disk := d'\<rparr>)
                  else
                    (case move d' source_path target_path of
                       (Some err, d'') \<Rightarrow> (Some err, st1\<lparr>file_hashes := hashes', disk := d''\<rparr>)
                     | (None, d'') \<Rightarrow>
                         (None, st1\<lparr>stats := count_moved category (stats st1),
                                    file_hashes := hashes', disk := d''\<rparr>))))"

text \<open>Lines 103-156: one file of the walk.\<close>

definition process_file :: "env \<Rightarrow> config \<Rightarrow> run_state \<Rightarrow> path \<Rightarrow> string \<Rightarrow> run_state" where
  "process_file e cfg st root filename =
     (if already_organized root then st\<lparr>stats := count_skipped (stats st)\<rparr>
      else (case try_body e cfg st root filename of
              (Some err, st') \<Rightarrow> st'\<lparr>stats := count_error (stats st')\<rparr>
            | (None, st') \<Rightarrow> st'))"

text \<open>
  Lines 101-102: the two loops. The walk is the sequence of \<^verbatim>\<open>(root, files)\<close> that
  \<^verbatim>\<open>os.walk(source_dir)\<close> yields during the run.
\<close>

fun process_files :: "env \<Rightarrow> config \<Rightarrow> run_state \<Rightarrow> path \<Rightarrow> string list \<Rightarrow> run_state" where
  "process_files e cfg st root [] = st"
| "process_files e cfg st root (filename # rest) =
     process_files e cfg (process_file e cfg st root filename) root rest"

fun walk_loop :: "env \<Rightarrow> config \<Rightarrow> run_state \<Rightarrow> (path \<times> string list) list \<Rightarrow> run_state" where
  "walk_loop e cfg st [] = st"
| "walk_loop e cfg st ((root, filenames) # rest) =
     walk_loop e cfg (process_files e cfg st root filenames) rest"

text \<open>Lines 97-99: the category directories, created before the walk.\<close>

fun create_category_dirs ::
    "filesystem \<Rightarrow> path \<Rightarrow> string list \<Rightarrow> os_error option \<times> filesystem" where
  "create_category_dirs d dest [] = (None, d)"
| "create_category_dirs d dest (category # rest) =
     (case create_directory_if_not_exists d (path_join dest category) of
        (Some err, d') \<Rightarrow> (Some err, d')
      | (None, d') \<Rightarrow> create_category_dirs d' dest rest)"

text \<open>
  \<^verbatim>\<open>organize_files_by_type\<close>: the returned statistics, or the exception that leaves the
  function, and the file system at the end.
\<close>

definition organize_files_by_type ::
    "env \<Rightarrow> path \<Rightarrow> path option \<Rightarrow> bool \<Rightarrow> bool \<Rightarrow> string \<Rightarrow> filesystem
      \<Rightarrow> (path \<times> string list) list \<Rightarrow> (os_error + run_stats) \<times> filesystem" where
  "organize_files_by_type e source_dir destination preview_flag date_flag duplicates d walk =
     (let dest = (case destination of
                    None \<Rightarrow> source_dir
                  | Some p \<Rightarrow> if p = [] then source_dir else p);
          cfg = \<lparr>destination_dir = dest, preview = preview_flag, include_date = date_flag,
                 handle_duplicates = duplicates\<rparr>
      in case (if \<not> preview_flag then create_category_dirs d dest category_names
               else (None, d)) of
           (Some err, d') \<Rightarrow> (Inl err, d')
         | (None, d') \<Rightarrow>
             (let st = walk_loop e cfg
                         \<lparr>stats = initial_stats, file_hashes = Map.empty, disk = d'\<rparr> walk
              in (Inr (stats st), disk st)))"


section \<open>Properties of a run\<close>

text \<open>The sum of the per-category counts, and the agreement of the moved counter with it.\<close>

definition category_total :: "run_stats \<Rightarrow> nat" where
  "category_total s = sum_list (map snd (kategorien s))"

definition counts_agree :: "run_stats \<Rightarrow> bool" where
  "counts_agree s = (distinct (map fst (kategorien s)) \<and> verschoben s = category_total s)"

text \<open>
  A file is undisturbed when the run that moves files reads for it, on the tree as it has
  changed it by then, what the preview reads on the initial tree (the modification time, the
  existence of the planned target and, on a collision, the content hash), and when its
  directory creation and its move do not fail.
\<close>

definition undisturbed_file ::
    "env \<Rightarrow> config \<Rightarrow> filesystem \<Rightarrow> run_state \<Rightarrow> path \<Rightarrow> string \<Rightarrow> bool" where
  "undisturbed_file e cfg d0 st root filename =
     (already_organized root \<or>
      (let source_path = path_join root filename;
           category = get_category_for_extension (snd (splitext filename))
       in case (fst (plan_target_dir e (cfg\<lparr>preview := True\<rparr>) d0 source_path category),
                plan_target_dir e cfg (disk st) source_path category) of
            (Inl err0, (Inl err, d1)) \<Rightarrow> True
          | (Inr target_dir0, (Inr target_dir, d1)) \<Rightarrow>
              target_dir0 = target_dir
              \<and> path_exists d0 (path_join target_dir filename)
                  = path_exists d1 (path_join target_dir filename)
              \<and> (path_exists d1 (path_join target_dir filename) \<longrightarrow>
                    get_file_hash e d0 source_path = get_file_hash e d1 source_path)
              \<and> (case fst (resolve_target e cfg d1 (file_hashes st) source_path target_dir
                              filename) of
                    None \<Rightarrow> True
                  | Some target_path \<Rightarrow> fst (move d1 source_path target_path) = None)
          | _ \<Rightarrow> False))"

fun undisturbed_files ::
    "env \<Rightarrow> config \<Rightarrow> filesystem \<Rightarrow> run_state \<Rightarrow> path \<Rightarrow> string list \<Rightarrow> bool" where
  "undisturbed_files e cfg d0 st root [] = True"
| "undisturbed_files e cfg d0 st root (filename # rest) =
     (undisturbed_file e cfg d0 st root filename
      \<and> undisturbed_files e cfg d0 (process_file e cfg st root filename) root rest)"

fun undisturbed_walk ::
    "env \<Rightarrow> config \<Rightarrow> filesystem \<Rightarrow> run_state \<Rightarrow> (path \<times> string list) list \<Rightarrow> bool" where
  "undisturbed_walk e cfg d0 st [] = True"
| "undisturbed_walk e cfg d0 st ((root, filenames) # rest) =
     (undisturbed_files e cfg d0 st root filenames
      \<and> undisturbed_walk e cfg d0 (process_files e cfg st root filenames) rest)"


section \<open>Example inputs\<close>

text \<open>
  The environment, files, configurations and trees on which the theorems below are evaluated.
  The hash of a content is the content behind a prefix, every modification time renders as
  \<open>1970-01\<close>, and the clock reads \<open>1700000000\<close>.
\<close>

definition example_env :: env where
  "example_env = \<lparr>md5_hexdigest = (\<lambda>c. ''md5:'' @ c), strftime_ym = (\<lambda>t. ''1970-01''),
                   time_now = (\<lambda>p. 1700000000)\<rparr>"

definition example_file :: regular_file where
  "example_file = \<lparr>content = ''hello'', mtime = 0, readable = True\<rparr>"

definition example_config :: config where
  "example_config = \<lparr>destination_dir = ''out'', preview = False, include_date = False,
                      handle_duplicates = ''rename''\<rparr>"

definition example_state :: "filesystem \<Rightarrow> run_state" where
  "example_state d = \<lparr>stats = initial_stats, file_hashes = Map.empty, disk = d\<rparr>"


text \<open>
  Two files of the same name and content in two folders of the source tree, before the run,
  after the category directories are made, and after the first and the second move.
\<close>

definition twin_walk :: "(path \<times> string list) list" where
  "twin_walk = [(''src'', []), (''src/a'', [''x.txt'']), (''src/b'', [''x.txt''])]"

definition twin_dirs :: "path set" where
  "twin_dirs = {''src'', ''src/a'', ''src/b'', ''out''}"

definition out_dirs :: "path set" where
  "out_dirs = {''out/Dokumente'', ''out/Bilder'', ''out/Videos'', ''out/Audio'', ''out/Archive'',
               ''out/Code'', ''out/Programme'', ''out/Andere''}"

definition twin_tree :: filesystem where
  "twin_tree = \<lparr>files = [''src/a/x.txt'' \<mapsto> example_file, ''src/b/x.txt'' \<mapsto> example_file],
                 dirs = twin_dirs, write_denied = {}\<rparr>"

definition twin_tree_ready :: filesystem where
  "twin_tree_ready = \<lparr>files = [''src/a/x.txt'' \<mapsto> example_file, ''src/b/x.txt'' \<mapsto> example_file],
                       dirs = twin_dirs \<union> out_dirs, write_denied = {}\<rparr>"

definition twin_tree_first :: filesystem where
  "twin_tree_first = \<lparr>files = [''src/b/x.txt'' \<mapsto> example_file, ''out/Dokumente/x.txt'' \<mapsto> example_file],
                       dirs = twin_dirs \<union> out_dirs, write_denied = {}\<rparr>"

definition twin_tree_second :: filesystem where
  "twin_tree_second = \<lparr>files = [''out/Dokumente/x.txt'' \<mapsto> example_file],
                        dirs = twin_dirs \<union> out_dirs, write_denied = {}\<rparr>"


definition twin_config :: "string \<Rightarrow> config" where
  "twin_config strategy = \<lparr>destination_dir = ''out'', preview = False, include_date = False,
                            handle_duplicates = strategy\<rparr>"


text \<open>
  A source file that cannot be read, next to a destination that holds a file of its name
  already; and the tree after the file is processed.
\<close>

definition unreadable_file :: regular_file where
  "unreadable_file = \<lparr>content = ''new'', mtime = 0, readable = False\<rparr>"

definition locked_tree :: filesystem where
  "locked_tree = \<lparr>files = [''src/x.txt'' \<mapsto> unreadable_file, ''out/Dokumente/x.txt'' \<mapsto> example_file],
                   dirs = {''src'', ''out''} \<union> out_dirs, write_denied = {}\<rparr>"

definition locked_tree_after :: filesystem where
  "locked_tree_after = \<lparr>files = [''out/Dokumente/x.txt'' \<mapsto> unreadable_file],
                         dirs = {''src'', ''out''} \<union> out_dirs, write_denied = {}\<rparr>"


text \<open>
  A source folder with two files, the first of which may neither be renamed nor removed; the
  tree after the first file is processed, which holds a copy of it at the destination; and
  the tree after both have been processed.
\<close>

definition denied_tree :: filesystem where
  "denied_tree = \<lparr>files = [''src/a.txt'' \<mapsto> example_file, ''src/b.txt'' \<mapsto> example_file],
                   dirs = {''src'', ''out''} \<union> out_dirs, write_denied = {''src/a.txt''}\<rparr>"

definition denied_tree_first :: filesystem where
  "denied_tree_first = \<lparr>files = [''src/a.txt'' \<mapsto> example_file, ''src/b.txt'' \<mapsto> example_file,
                                  ''out/Dokumente/a.txt'' \<mapsto> example_file],
                         dirs = {''src'', ''out''} \<union> out_dirs, write_denied = {''src/a.txt''}\<rparr>"

definition denied_tree_after :: filesystem where
  "denied_tree_after = \<lparr>files = [''src/a.txt'' \<mapsto> example_file,
                                  ''out/Dokumente/a.txt'' \<mapsto> example_file,
                                  ''out/Dokumente/b.txt'' \<mapsto> example_file],
                         dirs = {''src'', ''out''} \<union> out_dirs, write_denied = {''src/a.txt''}\<rparr>"


text \<open>
  Three files of the same name and content in three folders of the source tree, before the
  run, after the category directories are made, and after the first and the second move.
\<close>

definition triple_walk :: "(path \<times> string list) list" where
  "triple_walk = [(''src'', []), (''src/a'', [''x.txt'']), (''src/b'', [''x.txt'']),
                  (''src/c'', [''x.txt''])]"

definition triple_dirs :: "path set" where
  "triple_dirs = {''src'', ''src/a'', ''src/b'', ''src/c'', ''out''}"

definition triple_tree :: filesystem where
  "triple_tree = \<lparr>files = [''src/a/x.txt'' \<mapsto> example_file, ''src/b/x.txt'' \<mapsto> example_file,
                            ''src/c/x.txt'' \<mapsto> example_file],
                   dirs = triple_dirs, write_denied = {}\<rparr>"

definition triple_tree_ready :: filesystem where
  "triple_tree_ready = \<lparr>files = [''src/a/x.txt'' \<mapsto> example_file, ''src/b/x.txt'' \<mapsto> example_file,
                                  ''src/c/x.txt'' \<mapsto> example_file],
                         dirs = triple_dirs \<union> out_dirs, write_denied = {}\<rparr>"

definition triple_tree_first :: filesystem where
  "triple_tree_first = \<lparr>files = [''src/b/x.txt'' \<mapsto> example_file, ''src/c/x.txt'' \<mapsto> example_file,
                                  ''out/Dokumente/x.txt'' \<mapsto> example_file],
                         dirs = triple_dirs \<union> out_dirs, write_denied = {}\<rparr>"

definition triple_tree_second :: filesystem where
  "triple_tree_second = \<lparr>files = [''src/c/x.txt'' \<mapsto> example_file,
                                   ''out/Dokumente/x.txt'' \<mapsto> example_file],
                          dirs = triple_dirs \<union> out_dirs, write_denied = {}\<rparr>"


text \<open>
  Two different files in one source folder, before the run, after the category directories
  are made, and after the first and the second move.
\<close>

definition plain_walk :: "(path \<times> string list) list" where
  "plain_walk = [(''src'', [''a.txt'', ''b.txt''])]"

definition plain_tree :: filesystem where
  "plain_tree = \<lparr>files = [''src/a.txt'' \<mapsto> example_file, ''src/b.txt'' \<mapsto> example_file],
                  dirs = {''src'', ''out''}, write_denied = {}\<rparr>"

definition plain_tree_ready :: filesystem where
  "plain_tree_ready = \<lparr>files = [''src/a.txt'' \<mapsto> example_file, ''src/b.txt'' \<mapsto> example_file],
                        dirs = {''src'', ''out''} \<union> out_dirs, write_denied = {}\<rparr>"

definition plain_tree_first :: filesystem where
  "plain_tree_first = \<lparr>files = [''src/b.txt'' \<mapsto> example_file, ''out/Dokumente/a.txt'' \<mapsto> example_file],
                        dirs = {''src'', ''out''} \<union> out_dirs, write_denied = {}\<rparr>"

definition plain_tree_second :: filesystem where
  "plain_tree_second = \<lparr>files = [''out/Dokumente/a.txt'' \<mapsto> example_file,
                                  ''out/Dokumente/b.txt'' \<mapsto> example_file],
                         dirs = {''src'', ''out''} \<union> out_dirs, write_denied = {}\<rparr>"


text \<open>
  A run in place: the source folder holds \<open>a.png\<close> and, in its folder \<open>Bilder\<close>, an older
  file of the same name. The tree before the run, after the category directories are made,
  and at the end; and the walk of the source folder.
\<close>

definition newer_file :: regular_file where
  "newer_file = \<lparr>content = ''new'', mtime = 1, readable = True\<rparr>"

definition inplace_dirs :: "path set" where
  "inplace_dirs = {''src/Dokumente'', ''src/Bilder'', ''src/Videos'', ''src/Audio'', ''src/Archive'',
                   ''src/Code'', ''src/Programme'', ''src/Andere''}"

definition inplace_tree :: filesystem where
  "inplace_tree = \<lparr>files = [''src/a.png'' \<mapsto> newer_file, ''src/Bilder/a.png'' \<mapsto> example_file],
                    dirs = {''src'', ''src/Bilder''}, write_denied = {}\<rparr>"

definition inplace_tree_ready :: filesystem where
  "inplace_tree_ready = \<lparr>files = [''src/a.png'' \<mapsto> newer_file, ''src/Bilder/a.png'' \<mapsto> example_file],
                          dirs = {''src''} \<union> inplace_dirs, write_denied = {}\<rparr>"

definition inplace_tree_after :: filesystem where
  "inplace_tree_after = \<lparr>files = [''src/Bilder/a.png'' \<mapsto> newer_file],
                          dirs = {''src''} \<union> inplace_dirs, write_denied = {}\<rparr>"

definition inplace_walk :: "(path \<times> string list) list" where
  "inplace_walk = [(''src'', [''a.png'']), (''src/Dokumente'', []), (''src/Bilder'', [''a.png'']),
                   (''src/Videos'', []), (''src/Audio'', []), (''src/Archive'', []),
                   (''src/Code'', []), (''src/Programme'', []), (''src/Andere'', [])]"

definition inplace_config :: config where
  "inplace_config = \<lparr>destination_dir = ''src'', preview = False, include_date = False,
                      handle_duplicates = ''rename''\<rparr>"





section \<open>The classifier\<close>

lemma lower_other:
  "\<not> prefix [CHR 0xE2, CHR 0x84, CHR 0xAA] (c # s) \<Longrightarrow> lower (c # s) = lower_char c # lower s"
  by (cases s rule: lower.cases) auto

lemma lower_char_capitals:
  "map lower_char ''ABCDEFGHIJKLMNOPQRSTUVWXYZ'' = ''abcdefghijklmnopqrstuvwxyz''"
  by (simp add: lower_char_def)

lemma lower_char_other: "c \<notin> set ''ABCDEFGHIJKLMNOPQRSTUVWXYZ'' \<Longrightarrow> lower_char c = c"
  by (simp add: lower_char_def)

lemma table_classified:
  "\<forall>(category, extensions) \<in> set FILE_CATEGORIES.
     \<forall>ext \<in> set extensions. get_category_for_extension ext = category"
  by code_simp

lemma table_ascii:
  "\<forall>(category, extensions) \<in> set FILE_CATEGORIES.
     \<forall>ext \<in> set extensions. \<forall>c \<in> set ext. (of_char c :: nat) < 128"
  by code_simp

lemma first_category_find:
  "first_category tbl ext =
     (case find (\<lambda>(c, exts). ext \<in> set exts) tbl of None \<Rightarrow> ''Andere'' | Some (c, exts) \<Rightarrow> c)"
  by (induction tbl ext rule: first_category.induct) auto

lemma first_category_cases:
  "(\<exists>i < length tbl. ext \<in> set (snd (tbl ! i)) \<and> (\<forall>j < i. ext \<notin> set (snd (tbl ! j)))
        \<and> first_category tbl ext = fst (tbl ! i))
   \<or> ((\<forall>i < length tbl. ext \<notin> set (snd (tbl ! i))) \<and> first_category tbl ext = ''Andere'')"
proof (cases "find (\<lambda>(c, exts). ext \<in> set exts) tbl")
  case None
  then have "\<forall>i < length tbl. ext \<notin> set (snd (tbl ! i))"
    by (metis (mono_tags, lifting) find_None_iff nth_mem case_prod_beta)
  with None show ?thesis by (simp add: first_category_find)
next
  case (Some p)
  then obtain i where "i < length tbl" "ext \<in> set (snd (tbl ! i))" "p = tbl ! i"
      "\<forall>j < i. ext \<notin> set (snd (tbl ! j))"
    by (auto simp: find_Some_iff split_beta)
  with Some show ?thesis by (auto simp: first_category_find split_beta)
qed

lemma outside_ascii_is_other:
  assumes "\<exists>c \<in> set (lower ext). \<not> (of_char c :: nat) < 128"
  shows "get_category_for_extension ext = ''Andere''"
proof -
  have "lower ext \<notin> set (snd (FILE_CATEGORIES ! i))" if "i < length FILE_CATEGORIES" for i
  proof
    assume m: "lower ext \<in> set (snd (FILE_CATEGORIES ! i))"
    from that have "FILE_CATEGORIES ! i \<in> set FILE_CATEGORIES" by simp
    with table_ascii m have "\<forall>c \<in> set (lower ext). (of_char c :: nat) < 128"
      by (cases "FILE_CATEGORIES ! i") fastforce
    with assms show False by blast
  qed
  with first_category_cases [of FILE_CATEGORIES "lower ext"] show ?thesis
    by (auto simp: get_category_for_extension_def)
qed

text \<open>
  Claim C4. The classifier lower-cases the extension and returns the first category, in the
  declared order of the table, whose extension list holds the lower-cased extension; when no
  category holds it, and in particular for the empty extension, the result is \<open>Andere\<close>.
  Lower-casing is what \<^verbatim>\<open>str.lower()\<close> does as far as the table can tell: the 26 ASCII
  capitals become their small letters, the KELVIN SIGN becomes \<open>k\<close>, every other byte is
  kept, and an extension whose lower case has a byte outside ASCII is in no category. Every
  extension of the table is classified into its own category; two extensions with the same
  lower case get the same category (\<open>.PDF\<close> and \<open>.pdf\<close>); the function is total and has
  no error result.
\<close>

theorem get_category_for_extension_first_match:
  "((\<exists>i < length FILE_CATEGORIES.
        lower ext \<in> set (snd (FILE_CATEGORIES ! i))
      \<and> (\<forall>j < i. lower ext \<notin> set (snd (FILE_CATEGORIES ! j)))
      \<and> get_category_for_extension ext = fst (FILE_CATEGORIES ! i))
    \<or> ((\<forall>i < length FILE_CATEGORIES. lower ext \<notin> set (snd (FILE_CATEGORIES ! i)))
        \<and> get_category_for_extension ext = ''Andere''))
   \<and> lower [] = []
   \<and> (\<forall>s. lower (CHR 0xE2 # CHR 0x84 # CHR 0xAA # s) = CHR ''k'' # lower s)
   \<and> (\<forall>c s. \<not> prefix [CHR 0xE2, CHR 0x84, CHR 0xAA] (c # s)
         \<longrightarrow> lower (c # s) = lower_char c # lower s)
   \<and> map lower_char ''ABCDEFGHIJKLMNOPQRSTUVWXYZ'' = ''abcdefghijklmnopqrstuvwxyz''
   \<and> (\<forall>c. c \<notin> set ''ABCDEFGHIJKLMNOPQRSTUVWXYZ'' \<longrightarrow> lower_char c = c)
   \<and> ((\<exists>c \<in> set (lower ext). \<not> (of_char c :: nat) < 128)
         \<longrightarrow> get_category_for_extension ext = ''Andere'')
   \<and> (\<forall>(category, extensions) \<in> set FILE_CATEGORIES.
         \<forall>x \<in> set extensions. get_category_for_extension x = category)
   \<and> (\<forall>other. lower other = lower ext
         \<longrightarrow> get_category_for_extension other = get_category_for_extension ext)
   \<and> get_category_for_extension [] = ''Andere''
   \<and> get_category_for_extension ''.PDF'' = ''Dokumente''
   \<and> get_category_for_extension ''.pdf'' = ''Dokumente''
   \<and> get_category_for_extension ''.ZIP'' = ''Archive''
   \<and> get_category_for_extension (''.m'' @ [CHR 0xE2, CHR 0x84, CHR 0xAA] @ ''v'') = ''Videos''"
proof -
  have a: "get_category_for_extension [] = ''Andere''"
    by (simp add: get_category_for_extension_def FILE_CATEGORIES_def)
  have b: "\<forall>other. lower other = lower ext
         \<longrightarrow> get_category_for_extension other = get_category_for_extension ext"
    by (simp add: get_category_for_extension_def)
  have c: "get_category_for_extension ''.PDF'' = ''Dokumente''"
    "get_category_for_extension ''.pdf'' = ''Dokumente''"
    "get_category_for_extension ''.ZIP'' = ''Archive''"
    "get_category_for_extension (''.m'' @ [CHR 0xE2, CHR 0x84, CHR 0xAA] @ ''v'') = ''Videos''"
    by (simp_all add: get_category_for_extension_def FILE_CATEGORIES_def lower_char_def)
  have d: "\<forall>s. lower (CHR 0xE2 # CHR 0x84 # CHR 0xAA # s) = CHR ''k'' # lower s"
    by simp
  have e: "\<forall>c s. \<not> prefix [CHR 0xE2, CHR 0x84, CHR 0xAA] (c # s)
         \<longrightarrow> lower (c # s) = lower_char c # lower s"
    using lower_other by blast
  have f: "\<forall>c. c \<notin> set ''ABCDEFGHIJKLMNOPQRSTUVWXYZ'' \<longrightarrow> lower_char c = c"
    using lower_char_other by blast
  have g: "(\<exists>c \<in> set (lower ext). \<not> (of_char c :: nat) < 128)
         \<longrightarrow> get_category_for_extension ext = ''Andere''"
    using outside_ascii_is_other by blast
  have h: "(\<exists>i < length FILE_CATEGORIES.
        lower ext \<in> set (snd (FILE_CATEGORIES ! i))
      \<and> (\<forall>j < i. lower ext \<notin> set (snd (FILE_CATEGORIES ! j)))
      \<and> get_category_for_extension ext = fst (FILE_CATEGORIES ! i))
    \<or> ((\<forall>i < length FILE_CATEGORIES. lower ext \<notin> set (snd (FILE_CATEGORIES ! i)))
        \<and> get_category_for_extension ext = ''Andere'')"
    using first_category_cases [of FILE_CATEGORIES "lower ext"]
    unfolding get_category_for_extension_def by blast
  have i: "lower [] = []" by simp
  from h i d e lower_char_capitals f g table_classified b a c show ?thesis
    by (intro conjI)
qed

theorem get_category_for_extension_first_match_witness:
  "lower ''.KT'' = lower ''.Kt''
   \<and> ''.kt'' \<in> set (snd (FILE_CATEGORIES ! 5))
   \<and> get_category_for_extension ''.Kt'' = ''Code''
   \<and> get_category_for_extension ''.KT'' = ''Code''
   \<and> lower [CHR ''.'', CHR 0xC3, CHR 0xA9] = [CHR ''.'', CHR 0xC3, CHR 0xA9]
   \<and> \<not> (of_char (CHR 0xC3) :: nat) < 128
   \<and> get_category_for_extension [CHR ''.'', CHR 0xC3, CHR 0xA9] = ''Andere''"
proof -
  have l: "lower ''.KT'' = lower ''.Kt''" by (simp add: lower_char_def)
  have in5: "''.kt'' \<in> set (snd (FILE_CATEGORIES ! 5))" by (simp add: FILE_CATEGORIES_def)
  have k: "get_category_for_extension ''.Kt'' = ''Code''"
    by (simp add: get_category_for_extension_def FILE_CATEGORIES_def lower_char_def)
  have "\<forall>other. lower other = lower ''.Kt''
         \<longrightarrow> get_category_for_extension other = get_category_for_extension ''.Kt''"
    using get_category_for_extension_first_match [of "''.Kt''"] by (elim conjE)
  then have "lower ''.KT'' = lower ''.Kt''
         \<longrightarrow> get_category_for_extension ''.KT'' = get_category_for_extension ''.Kt''"
    by (rule spec)
  then have "get_category_for_extension ''.KT'' = get_category_for_extension ''.Kt''"
    using l by (rule mp)
  then have k2: "get_category_for_extension ''.KT'' = ''Code''" by (simp only: k)
  have e: "lower [CHR ''.'', CHR 0xC3, CHR 0xA9] = [CHR ''.'', CHR 0xC3, CHR 0xA9]"
    by (simp add: lower_char_def)
  have n: "\<not> (of_char (CHR 0xC3) :: nat) < 128" by simp
  have "\<exists>c \<in> set (lower [CHR ''.'', CHR 0xC3, CHR 0xA9]). \<not> (of_char c :: nat) < 128"
    by (simp add: lower_char_def)
  moreover have "(\<exists>c \<in> set (lower [CHR ''.'', CHR 0xC3, CHR 0xA9]). \<not> (of_char c :: nat) < 128)
      \<longrightarrow> get_category_for_extension [CHR ''.'', CHR 0xC3, CHR 0xA9] = ''Andere''"
    using get_category_for_extension_first_match [of "[CHR ''.'', CHR 0xC3, CHR 0xA9]"]
    by (elim conjE)
  ultimately have a: "get_category_for_extension [CHR ''.'', CHR 0xC3, CHR 0xA9] = ''Andere''"
    by (rule rev_mp)
  from l in5 k k2 e n a show ?thesis by (intro conjI)
qed


section \<open>The exclusion of organized directories\<close>

lemma sublist_prepend: "sublist c xs \<Longrightarrow> sublist c (pre @ xs)"
proof -
  assume "sublist c xs"
  then obtain ps ss where "xs = ps @ c @ ss" by (auto simp: sublist_def)
  then have "pre @ xs = (pre @ ps) @ c @ ss" by simp
  then show ?thesis unfolding sublist_def by blast
qed

lemma segments_from_sublist: "c \<in> set (segments_from acc s) \<Longrightarrow> sublist c (acc @ s)"
proof (induction s arbitrary: acc)
  case Nil
  then show ?case by simp
next
  case (Cons x xs)
  show ?case
  proof (cases "x = CHR ''/''")
    case True
    with Cons.prems have "c = acc \<or> c \<in> set (segments_from [] xs)" by simp
    then show ?thesis
    proof
      assume "c = acc"
      then show ?thesis by simp
    next
      assume "c \<in> set (segments_from [] xs)"
      then have "sublist c xs" using Cons.IH [of "[]"] by simp
      then have "sublist c ((acc @ [x]) @ xs)" by (rule sublist_prepend)
      then show ?thesis by simp
    qed
  next
    case False
    with Cons.prems have "c \<in> set (segments_from (acc @ [x]) xs)" by simp
    then have "sublist c ((acc @ [x]) @ xs)" by (rule Cons.IH)
    then show ?thesis by simp
  qed
qed

lemma segment_sublist: "c \<in> set (segments root) \<Longrightarrow> sublist c root"
  using segments_from_sublist [of c "[]" root] by (simp add: segments_def)

lemma already_organized_iff:
  "already_organized root \<longleftrightarrow> (\<exists>c \<in> set category_names. sublist c root)"
  by (simp add: already_organized_def list_ex_iff)

lemma process_file_organized:
  "already_organized root \<Longrightarrow>
     process_file e cfg st root filename = st\<lparr>stats := count_skipped (stats st)\<rparr>"
  by (simp add: process_file_def)

lemma process_files_organized:
  "already_organized root \<Longrightarrow>
     process_files e cfg st root filenames
       = st\<lparr>stats := (stats st)\<lparr>uebersprungen := uebersprungen (stats st) + length filenames\<rparr>\<rparr>"
  by (induction filenames arbitrary: st) (simp_all add: process_file_organized count_skipped_def)

text \<open>
  Claim C7, as amended. When a file whose directory path has a segment equal to a declared
  category name is processed, it is left as it is: it is neither classified nor planned nor
  moved, the file system and the duplicate index stay as they were, and only the skipped
  counter grows by one; the error counter does not. The same holds for the whole listing of
  such a directory. Nothing is said about what the run does at the path of the file before
  or after that moment.
\<close>

theorem category_segment_is_skipped:
  assumes "category \<in> set category_names" and "category \<in> set (segments root)"
  shows "process_file e cfg st root filename =
           st\<lparr>stats := (stats st)\<lparr>uebersprungen := uebersprungen (stats st) + 1\<rparr>\<rparr>
       \<and> disk (process_file e cfg st root filename) = disk st
       \<and> file_hashes (process_file e cfg st root filename) = file_hashes st
       \<and> uebersprungen (stats (process_file e cfg st root filename)) = uebersprungen (stats st) + 1
       \<and> fehler (stats (process_file e cfg st root filename)) = fehler (stats st)
       \<and> verschoben (stats (process_file e cfg st root filename)) = verschoben (stats st)
       \<and> kategorien (stats (process_file e cfg st root filename)) = kategorien (stats st)
       \<and> process_files e cfg st root filenames
           = st\<lparr>stats := (stats st)\<lparr>uebersprungen := uebersprungen (stats st) + length filenames\<rparr>\<rparr>"
proof -
  from assms have "already_organized root"
    using segment_sublist already_organized_iff by blast
  then show ?thesis
    by (simp add: process_file_organized process_files_organized count_skipped_def)
qed

theorem category_segment_is_skipped_witness:
  "''Bilder'' \<in> set category_names \<and> ''Bilder'' \<in> set (segments ''home/Bilder/2020'')
   \<and> process_file example_env example_config
        (example_state \<lparr>files = [''home/Bilder/2020/a.png'' \<mapsto> example_file],
                         dirs = {''home'', ''home/Bilder'', ''home/Bilder/2020'', ''out''},
                         write_denied = {}\<rparr>) ''home/Bilder/2020'' ''a.png''
     = \<lparr>stats = \<lparr>verschoben = 0, uebersprungen = 1, fehler = 0, kategorien = []\<rparr>,
        file_hashes = Map.empty,
        disk = \<lparr>files = [''home/Bilder/2020/a.png'' \<mapsto> example_file],
                 dirs = {''home'', ''home/Bilder'', ''home/Bilder/2020'', ''out''},
                 write_denied = {}\<rparr>\<rparr>"
proof -
  have a: "''Bilder'' \<in> set category_names"
    by (simp add: category_names_def FILE_CATEGORIES_def)
  have b: "''Bilder'' \<in> set (segments ''home/Bilder/2020'')"
    by (simp add: segments_def)
  show ?thesis
    using a b category_segment_is_skipped [OF a b, of example_env example_config
        "example_state \<lparr>files = [''home/Bilder/2020/a.png'' \<mapsto> example_file],
                         dirs = {''home'', ''home/Bilder'', ''home/Bilder/2020'', ''out''},
                         write_denied = {}\<rparr>" "''a.png''"]
    by (simp add: example_state_def initial_stats_def)
qed

text \<open>
  Claim C9. The exclusion test is substring containment, not equality with a path segment: a
  file is skipped exactly when some declared category name occurs somewhere inside the string
  of its directory path. The directory \<open>src/MyCodeStuff\<close> is excluded through \<open>Code\<close>
  although none of its segments is a category name.
\<close>

theorem exclusion_is_substring_containment:
  "(already_organized root \<longleftrightarrow> (\<exists>category \<in> set category_names. \<exists>before after. root = before @ category @ after))
   \<and> (already_organized root \<longrightarrow>
        process_file e cfg st root filename =
          st\<lparr>stats := (stats st)\<lparr>uebersprungen := uebersprungen (stats st) + 1\<rparr>\<rparr>)
   \<and> already_organized ''src/MyCodeStuff''
   \<and> (\<forall>category \<in> set category_names. category \<notin> set (segments ''src/MyCodeStuff''))"
proof -
  have a: "already_organized root \<longleftrightarrow>
      (\<exists>category \<in> set category_names. \<exists>before after. root = before @ category @ after)"
    by (simp add: already_organized_iff sublist_def)
  have b: "already_organized root \<longrightarrow>
        process_file e cfg st root filename =
          st\<lparr>stats := (stats st)\<lparr>uebersprungen := uebersprungen (stats st) + 1\<rparr>\<rparr>"
    by (simp add: process_file_organized count_skipped_def)
  have c: "already_organized ''src/MyCodeStuff''"
    by (simp add: already_organized_def category_names_def FILE_CATEGORIES_def sublist_code)
  have d: "\<forall>category \<in> set category_names. category \<notin> set (segments ''src/MyCodeStuff'')"
    by (simp add: category_names_def FILE_CATEGORIES_def segments_def)
  from a b c d show ?thesis by blast
qed

theorem exclusion_is_substring_containment_witness:
  "''src/MyCodeStuff'' = ''src/My'' @ ''Code'' @ ''Stuff''
   \<and> ''Code'' \<in> set category_names
   \<and> segments ''src/MyCodeStuff'' = [''src'', ''MyCodeStuff'']
   \<and> process_file example_env example_config
        (example_state \<lparr>files = [''src/MyCodeStuff/a.txt'' \<mapsto> example_file],
                         dirs = {''src'', ''src/MyCodeStuff'', ''out''}, write_denied = {}\<rparr>)
        ''src/MyCodeStuff'' ''a.txt''
     = \<lparr>stats = \<lparr>verschoben = 0, uebersprungen = 1, fehler = 0, kategorien = []\<rparr>,
        file_hashes = Map.empty,
        disk = \<lparr>files = [''src/MyCodeStuff/a.txt'' \<mapsto> example_file],
                 dirs = {''src'', ''src/MyCodeStuff'', ''out''}, write_denied = {}\<rparr>\<rparr>"
proof -
  have a: "''src/MyCodeStuff'' = ''src/My'' @ ''Code'' @ ''Stuff''" by simp
  have b: "''Code'' \<in> set category_names" by (simp add: category_names_def FILE_CATEGORIES_def)
  have c: "segments ''src/MyCodeStuff'' = [''src'', ''MyCodeStuff'']" by (simp add: segments_def)
  from a b have "\<exists>category \<in> set category_names. \<exists>before after.
      ''src/MyCodeStuff'' = before @ category @ after" by blast
  then have "already_organized ''src/MyCodeStuff''"
    using exclusion_is_substring_containment [of "''src/MyCodeStuff''"] by blast
  then have "process_file example_env example_config
        (example_state \<lparr>files = [''src/MyCodeStuff/a.txt'' \<mapsto> example_file],
                         dirs = {''src'', ''src/MyCodeStuff'', ''out''}, write_denied = {}\<rparr>)
        ''src/MyCodeStuff'' ''a.txt''
     = (example_state \<lparr>files = [''src/MyCodeStuff/a.txt'' \<mapsto> example_file],
                         dirs = {''src'', ''src/MyCodeStuff'', ''out''}, write_denied = {}\<rparr>)
        \<lparr>stats := (stats (example_state \<lparr>files = [''src/MyCodeStuff/a.txt'' \<mapsto> example_file],
                         dirs = {''src'', ''src/MyCodeStuff'', ''out''}, write_denied = {}\<rparr>))
           \<lparr>uebersprungen := uebersprungen (stats (example_state \<lparr>files = [''src/MyCodeStuff/a.txt'' \<mapsto> example_file],
                         dirs = {''src'', ''src/MyCodeStuff'', ''out''}, write_denied = {}\<rparr>)) + 1\<rparr>\<rparr>"
    using exclusion_is_substring_containment [of "''src/MyCodeStuff''"] by blast
  with a b c show ?thesis by (simp add: example_state_def initial_stats_def)
qed


section \<open>The counters\<close>

lemma init_category_sum: "sum_list (map snd (init_category c k)) = sum_list (map snd k)"
  by (simp add: init_category_def)

lemma init_category_distinct:
  "distinct (map fst k) \<Longrightarrow> distinct (map fst (init_category c k))"
  by (auto simp: init_category_def)

lemma init_category_key: "c \<in> fst ` set (init_category c k)"
  by (auto simp: init_category_def)

lemma incr_category_keys: "map fst (incr_category c k) = map fst k"
  by (induction k) (auto simp: incr_category_def)

lemma incr_category_absent:
  "c \<notin> fst ` set k \<Longrightarrow> incr_category c k = k"
  by (induction k) (auto simp: incr_category_def)

lemma incr_category_sum:
  "distinct (map fst k) \<Longrightarrow> c \<in> fst ` set k \<Longrightarrow>
     sum_list (map snd (incr_category c k)) = sum_list (map snd k) + 1"
proof (induction k)
  case Nil
  then show ?case by simp
next
  case (Cons p k)
  obtain c' n where p: "p = (c', n)" by (cases p)
  show ?case
  proof (cases "c' = c")
    case True
    with Cons.prems p have "c \<notin> fst ` set k" by auto
    then have "incr_category c k = k" by (rule incr_category_absent)
    then have "map (\<lambda>(c', n). if c' = c then (c', n + 1) else (c', n)) k = k"
      by (simp add: incr_category_def)
    with True p show ?thesis by (simp add: incr_category_def)
  next
    case False
    with Cons.prems p have "distinct (map fst k)" "c \<in> fst ` set k" by auto
    then have "sum_list (map snd (incr_category c k)) = sum_list (map snd k) + 1"
      by (rule Cons.IH)
    with False p show ?thesis by (simp add: incr_category_def)
  qed
qed

lemma try_body_stats:
  assumes "try_body e cfg st root filename = (r, st')"
  shows "(r = None \<and>
            (stats st' = count_moved (get_category_for_extension (snd (splitext filename)))
                 ((stats st)\<lparr>kategorien := init_category
                     (get_category_for_extension (snd (splitext filename))) (kategorien (stats st))\<rparr>)
           \<or> stats st' = count_skipped
                 ((stats st)\<lparr>kategorien := init_category
                     (get_category_for_extension (snd (splitext filename))) (kategorien (stats st))\<rparr>)))
       \<or> (r \<noteq> None \<and>
            stats st' = (stats st)\<lparr>kategorien := init_category
                     (get_category_for_extension (snd (splitext filename))) (kategorien (stats st))\<rparr>)"
  using assms
  by (auto simp: try_body_def Let_def split_beta
           split: prod.splits sum.splits option.splits if_splits)

lemma process_file_stats:
  "stats (process_file e cfg st root filename) = count_skipped (stats st)
   \<or> (\<exists>c. stats (process_file e cfg st root filename) =
            count_moved c ((stats st)\<lparr>kategorien := init_category c (kategorien (stats st))\<rparr>)
        \<or> stats (process_file e cfg st root filename) =
            count_skipped ((stats st)\<lparr>kategorien := init_category c (kategorien (stats st))\<rparr>)
        \<or> stats (process_file e cfg st root filename) =
            count_error ((stats st)\<lparr>kategorien := init_category c (kategorien (stats st))\<rparr>))"
proof (cases "already_organized root")
  case True
  then show ?thesis by (simp add: process_file_def)
next
  case False
  obtain r st' where b: "try_body e cfg st root filename = (r, st')"
    by (cases "try_body e cfg st root filename")
  from try_body_stats [OF b] False b show ?thesis
    by (cases r) (auto simp: process_file_def)
qed

lemma count_moved_step:
  assumes "counts_agree s"
  shows "counts_agree (count_moved c (s\<lparr>kategorien := init_category c (kategorien s)\<rparr>))
       \<and> verschoben (count_moved c (s\<lparr>kategorien := init_category c (kategorien s)\<rparr>)) = verschoben s + 1
       \<and> category_total (count_moved c (s\<lparr>kategorien := init_category c (kategorien s)\<rparr>)) = category_total s + 1
       \<and> uebersprungen (count_moved c (s\<lparr>kategorien := init_category c (kategorien s)\<rparr>)) = uebersprungen s
       \<and> fehler (count_moved c (s\<lparr>kategorien := init_category c (kategorien s)\<rparr>)) = fehler s"
proof -
  from assms have d: "distinct (map fst (init_category c (kategorien s)))"
    by (simp add: counts_agree_def init_category_distinct)
  have "sum_list (map snd (incr_category c (init_category c (kategorien s))))
        = sum_list (map snd (kategorien s)) + 1"
    using incr_category_sum [OF d init_category_key] by (simp add: init_category_sum)
  with assms d show ?thesis
    by (simp add: counts_agree_def category_total_def count_moved_def incr_category_keys)
qed

lemma count_other_step:
  assumes "counts_agree s"
  shows "counts_agree (count_skipped s) \<and> counts_agree (count_error s)
       \<and> counts_agree (count_skipped (s\<lparr>kategorien := init_category c (kategorien s)\<rparr>))
       \<and> counts_agree (count_error (s\<lparr>kategorien := init_category c (kategorien s)\<rparr>))
       \<and> category_total (s\<lparr>kategorien := init_category c (kategorien s)\<rparr>) = category_total s"
  using assms
  by (simp add: counts_agree_def category_total_def count_skipped_def count_error_def
        init_category_sum init_category_distinct)

lemma process_file_counts:
  assumes "counts_agree (stats st)"
  shows "counts_agree (stats (process_file e cfg st root filename))
       \<and> ((verschoben (stats (process_file e cfg st root filename)) = verschoben (stats st) + 1
            \<and> category_total (stats (process_file e cfg st root filename))
                = category_total (stats st) + 1
            \<and> uebersprungen (stats (process_file e cfg st root filename)) = uebersprungen (stats st)
            \<and> fehler (stats (process_file e cfg st root filename)) = fehler (stats st))
          \<or> (verschoben (stats (process_file e cfg st root filename)) = verschoben (stats st)
            \<and> category_total (stats (process_file e cfg st root filename))
                = category_total (stats st)
            \<and> uebersprungen (stats (process_file e cfg st root filename))
                + fehler (stats (process_file e cfg st root filename))
                = uebersprungen (stats st) + fehler (stats st) + 1))"
proof -
  let ?s' = "stats (process_file e cfg st root filename)"
  from process_file_stats [of e cfg st root filename]
  consider "?s' = count_skipped (stats st)"
    | c where "?s' = count_moved c ((stats st)\<lparr>kategorien := init_category c (kategorien (stats st))\<rparr>)"
    | c where "?s' = count_skipped ((stats st)\<lparr>kategorien := init_category c (kategorien (stats st))\<rparr>)"
    | c where "?s' = count_error ((stats st)\<lparr>kategorien := init_category c (kategorien (stats st))\<rparr>)"
    by blast
  then show ?thesis
  proof cases
    case 1
    with count_other_step [OF assms] show ?thesis
      by (simp add: count_skipped_def category_total_def)
  next
    case (2 c)
    with count_moved_step [OF assms, of c] show ?thesis by simp
  next
    case (3 c)
    with count_other_step [OF assms, of c] show ?thesis
      by (simp add: count_skipped_def category_total_def)
  next
    case (4 c)
    with count_other_step [OF assms, of c] show ?thesis
      by (simp add: count_error_def category_total_def)
  qed
qed

lemma process_files_counts:
  "counts_agree (stats st) \<Longrightarrow> counts_agree (stats (process_files e cfg st root filenames))"
  by (induction filenames arbitrary: st) (simp_all add: process_file_counts)

lemma walk_loop_counts:
  "counts_agree (stats st) \<Longrightarrow> counts_agree (stats (walk_loop e cfg st walk))"
  by (induction walk arbitrary: st) (auto simp: process_files_counts)

lemma initial_counts: "counts_agree initial_stats"
  by (simp add: counts_agree_def initial_stats_def category_total_def)

lemma organize_counts:
  "organize_files_by_type e src dst p dt dup d walk = (Inr s, d') \<Longrightarrow> counts_agree s"
  by (auto simp: organize_files_by_type_def Let_def walk_loop_counts initial_counts
           split: prod.splits option.splits if_splits)


section \<open>Single steps\<close>

lemma plan_target_dir_plain:
  "\<not> include_date cfg \<Longrightarrow>
     plan_target_dir e cfg d source_path category =
       (Inr (path_join (destination_dir cfg) category), d)"
  by (simp add: plan_target_dir_def)

lemma resolve_target_fresh:
  "\<not> path_exists d (path_join target_dir filename) \<Longrightarrow>
     resolve_target e cfg d hashes source_path target_dir filename =
       (Some (path_join target_dir filename), hashes)"
  by (simp add: resolve_target_def)

lemma resolve_target_unrecorded:
  "path_exists d (path_join target_dir filename) \<Longrightarrow>
   \<not> (truthy (get_file_hash e d source_path) \<and> hashes (get_file_hash e d source_path) \<noteq> None) \<Longrightarrow>
     resolve_target e cfg d hashes source_path target_dir filename =
       (Some (path_join target_dir filename),
        hashes(get_file_hash e d source_path \<mapsto> path_join target_dir filename))"
  by (auto simp: resolve_target_def Let_def)

lemma try_body_move:
  assumes "plan_target_dir e cfg (disk st) (path_join root filename)
             (get_category_for_extension (snd (splitext filename))) = (Inr target_dir, d1)"
    and "resolve_target e cfg d1 (file_hashes st) (path_join root filename) target_dir filename
           = (Some target_path, hashes')"
    and "\<not> preview cfg"
    and "move d1 (path_join root filename) target_path = (None, d2)"
  shows "try_body e cfg st root filename =
           (None, st\<lparr>stats := count_moved (get_category_for_extension (snd (splitext filename)))
                        ((stats st)\<lparr>kategorien := init_category
                            (get_category_for_extension (snd (splitext filename)))
                            (kategorien (stats st))\<rparr>),
                     file_hashes := hashes', disk := d2\<rparr>)"
  using assms by (simp add: try_body_def Let_def split_beta)

section \<open>Twins\<close>

lemmas twin_defs = twin_tree_def twin_tree_ready_def twin_tree_first_def twin_tree_second_def
  twin_dirs_def out_dirs_def

lemma twin_ready:
  "create_category_dirs twin_tree ''out'' category_names = (None, twin_tree_ready)"
  by (auto simp: twin_defs category_names_def FILE_CATEGORIES_def
      create_directory_if_not_exists_def makedirs_def path_exists_def path_join_def ancestors_def)

lemma x_txt: "get_category_for_extension (snd (splitext ''x.txt'')) = ''Dokumente''"
  by (simp add: splitext_def rfind_def get_category_for_extension_def FILE_CATEGORIES_def
      lower_char_def)

lemma src_a: "\<not> already_organized ''src/a''" and src_b: "\<not> already_organized ''src/b''"
  by (simp_all add: already_organized_def category_names_def FILE_CATEGORIES_def sublist_code)

lemma dirname_x: "dirname ''out/Dokumente/x.txt'' = ''out/Dokumente''"
  by (simp add: dirname_def rfind_def rstrip_sep_def)

lemma twin_move_first:
  "move twin_tree_ready ''src/a/x.txt'' ''out/Dokumente/x.txt'' = (None, twin_tree_first)"
  by (auto simp: move_def os_rename_def twin_defs dirname_x path_exists_def fun_eq_iff)

lemma twin_move_second:
  "move twin_tree_first ''src/b/x.txt'' ''out/Dokumente/x.txt'' = (None, twin_tree_second)"
  by (auto simp: move_def os_rename_def twin_defs dirname_x path_exists_def fun_eq_iff)


lemma process_file_result:
  "\<not> already_organized root \<Longrightarrow> try_body e cfg st root filename = (None, st') \<Longrightarrow>
     process_file e cfg st root filename = st'"
  by (simp add: process_file_def)

lemma twin_first_step:
  "process_file example_env (twin_config strategy)
     \<lparr>stats = initial_stats, file_hashes = Map.empty, disk = twin_tree_ready\<rparr> ''src/a'' ''x.txt''
   = \<lparr>stats = \<lparr>verschoben = 1, uebersprungen = 0, fehler = 0, kategorien = [(''Dokumente'', 1)]\<rparr>,
      file_hashes = Map.empty, disk = twin_tree_first\<rparr>"
proof -
  let ?cfg = "twin_config strategy"
  let ?st = "\<lparr>stats = initial_stats, file_hashes = Map.empty, disk = twin_tree_ready\<rparr>"
  have j: "path_join ''src/a'' ''x.txt'' = ''src/a/x.txt''" by (simp add: path_join_def)
  have p: "plan_target_dir example_env ?cfg (disk ?st) ''src/a/x.txt'' ''Dokumente''
             = (Inr ''out/Dokumente'', twin_tree_ready)"
    by (simp add: plan_target_dir_plain twin_config_def path_join_def)
  have t: "path_join ''out/Dokumente'' ''x.txt'' = ''out/Dokumente/x.txt''"
    by (simp add: path_join_def)
  have "\<not> path_exists twin_tree_ready ''out/Dokumente/x.txt''"
    by (simp add: path_exists_def twin_defs)
  then have r: "resolve_target example_env ?cfg twin_tree_ready (file_hashes ?st) ''src/a/x.txt''
             ''out/Dokumente'' ''x.txt'' = (Some ''out/Dokumente/x.txt'', Map.empty)"
    using resolve_target_fresh [of twin_tree_ready "''out/Dokumente''" "''x.txt''"] t by simp
  have "try_body example_env ?cfg ?st ''src/a'' ''x.txt'' =
          (None, ?st\<lparr>stats := count_moved ''Dokumente''
                        ((stats ?st)\<lparr>kategorien := init_category ''Dokumente'' (kategorien (stats ?st))\<rparr>),
                     file_hashes := Map.empty, disk := twin_tree_first\<rparr>)"
    using try_body_move [of example_env ?cfg ?st "''src/a''" "''x.txt''" "''out/Dokumente''"
        twin_tree_ready "''out/Dokumente/x.txt''" Map.empty twin_tree_first]
      p r twin_move_first
    by (simp add: j x_txt twin_config_def)
  then show ?thesis
    using process_file_result [OF src_a]
    by (simp add: count_moved_def init_category_def incr_category_def initial_stats_def)
qed

lemma twin_second_step:
  "process_file example_env (twin_config strategy)
     \<lparr>stats = \<lparr>verschoben = 1, uebersprungen = 0, fehler = 0, kategorien = [(''Dokumente'', 1)]\<rparr>,
      file_hashes = Map.empty, disk = twin_tree_first\<rparr> ''src/b'' ''x.txt''
   = \<lparr>stats = \<lparr>verschoben = 2, uebersprungen = 0, fehler = 0, kategorien = [(''Dokumente'', 2)]\<rparr>,
      file_hashes = [Some ''md5:hello'' \<mapsto> ''out/Dokumente/x.txt''], disk = twin_tree_second\<rparr>"
proof -
  let ?cfg = "twin_config strategy"
  let ?st = "\<lparr>stats = \<lparr>verschoben = 1, uebersprungen = 0, fehler = 0, kategorien = [(''Dokumente'', 1)]\<rparr>,
      file_hashes = Map.empty, disk = twin_tree_first\<rparr>"
  have j: "path_join ''src/b'' ''x.txt'' = ''src/b/x.txt''" by (simp add: path_join_def)
  have p: "plan_target_dir example_env ?cfg (disk ?st) ''src/b/x.txt'' ''Dokumente''
             = (Inr ''out/Dokumente'', twin_tree_first)"
    by (simp add: plan_target_dir_plain twin_config_def path_join_def)
  have t: "path_join ''out/Dokumente'' ''x.txt'' = ''out/Dokumente/x.txt''"
    by (simp add: path_join_def)
  have ex: "path_exists twin_tree_first ''out/Dokumente/x.txt''"
    by (simp add: path_exists_def twin_defs)
  have h: "get_file_hash example_env twin_tree_first ''src/b/x.txt'' = Some ''md5:hello''"
    by (simp add: get_file_hash_def twin_defs example_env_def example_file_def)
  have r: "resolve_target example_env ?cfg twin_tree_first (file_hashes ?st) ''src/b/x.txt''
             ''out/Dokumente'' ''x.txt''
           = (Some ''out/Dokumente/x.txt'', [Some ''md5:hello'' \<mapsto> ''out/Dokumente/x.txt''])"
    using resolve_target_unrecorded [of twin_tree_first "''out/Dokumente''" "''x.txt''"
        example_env "''src/b/x.txt''" Map.empty ?cfg] ex t h
    by simp
  have "try_body example_env ?cfg ?st ''src/b'' ''x.txt'' =
          (None, ?st\<lparr>stats := count_moved ''Dokumente''
                        ((stats ?st)\<lparr>kategorien := init_category ''Dokumente'' (kategorien (stats ?st))\<rparr>),
                     file_hashes := [Some ''md5:hello'' \<mapsto> ''out/Dokumente/x.txt''],
                     disk := twin_tree_second\<rparr>)"
    using try_body_move [of example_env ?cfg ?st "''src/b''" "''x.txt''" "''out/Dokumente''"
        twin_tree_first "''out/Dokumente/x.txt''" "[Some ''md5:hello'' \<mapsto> ''out/Dokumente/x.txt'']"
        twin_tree_second]
      p r twin_move_second
    by (simp add: j x_txt twin_config_def)
  then show ?thesis
    using process_file_result [OF src_b]
    by (simp add: count_moved_def init_category_def incr_category_def)
qed

lemma twin_run:
  "organize_files_by_type example_env ''src'' (Some ''out'') False False strategy twin_tree twin_walk
   = (Inr \<lparr>verschoben = 2, uebersprungen = 0, fehler = 0, kategorien = [(''Dokumente'', 2)]\<rparr>,
      twin_tree_second)"
  using twin_first_step [of strategy] twin_second_step [of strategy]
  by (simp add: organize_files_by_type_def twin_ready twin_walk_def twin_config_def)


section \<open>Two copies of one file\<close>

text \<open>
  Claim C1, evaluated on the program. Source tree: \<open>src/a/x.txt\<close> and \<open>src/b/x.txt\<close> with
  the same content, destination \<open>out\<close>, no preview, strategy \<open>rename\<close>. The first file is
  moved to \<open>out/Dokumente/x.txt\<close> without its hash being recorded; the second one collides,
  its hash is not in the index, so no renaming takes place and it is moved onto the first.
  At the end the destination holds one file only, and no file with the timestamp suffix.
\<close>

theorem rename_strategy_twins_leave_one_file:
  "content (the (files twin_tree ''src/a/x.txt'')) = content (the (files twin_tree ''src/b/x.txt''))
   \<and> organize_files_by_type example_env ''src'' (Some ''out'') False False ''rename''
         twin_tree twin_walk
       = (Inr \<lparr>verschoben = 2, uebersprungen = 0, fehler = 0, kategorien = [(''Dokumente'', 2)]\<rparr>,
          twin_tree_second)
   \<and> dom (files twin_tree_second) = {''out/Dokumente/x.txt''}
   \<and> path_join ''out/Dokumente''
         (fst (splitext ''x.txt'') @ ''_'' @ str_nat (time_now example_env ''src/b/x.txt'')
            @ snd (splitext ''x.txt'')) = ''out/Dokumente/x_1700000000.txt''
   \<and> files twin_tree_second ''out/Dokumente/x_1700000000.txt'' = None"
proof -
  have a: "content (the (files twin_tree ''src/a/x.txt''))
         = content (the (files twin_tree ''src/b/x.txt''))"
    by (simp add: twin_defs)
  have b: "dom (files twin_tree_second) = {''out/Dokumente/x.txt''}"
    by (simp add: twin_defs)
  have c: "splitext ''x.txt'' = (''x'', ''.txt'')"
    by (simp add: splitext_def rfind_def)
  have d: "str_nat (time_now example_env ''src/b/x.txt'') = ''1700000000''"
    by (simp add: example_env_def str_nat.simps)
  have e: "files twin_tree_second ''out/Dokumente/x_1700000000.txt'' = None"
    by (simp add: twin_defs)
  from a b c d e twin_run [of "''rename''"] show ?thesis
    by (simp add: path_join_def)
qed

text \<open>
  Claim C3, evaluated on the program. The same source tree with strategy \<open>skip\<close>: the second
  copy is not counted as skipped. Both files are counted as moved, the skipped counter stays
  at zero, and the second file has replaced the first at the destination.
\<close>

theorem skip_strategy_twins_none_skipped:
  "content (the (files twin_tree ''src/a/x.txt'')) = content (the (files twin_tree ''src/b/x.txt''))
   \<and> fst (organize_files_by_type example_env ''src'' (Some ''out'') False False ''skip''
         twin_tree twin_walk)
       = Inr \<lparr>verschoben = 2, uebersprungen = 0, fehler = 0, kategorien = [(''Dokumente'', 2)]\<rparr>
   \<and> files (snd (organize_files_by_type example_env ''src'' (Some ''out'') False False ''skip''
         twin_tree twin_walk)) ''out/Dokumente/x.txt'' = Some example_file
   \<and> files (snd (organize_files_by_type example_env ''src'' (Some ''out'') False False ''skip''
         twin_tree twin_walk)) ''src/b/x.txt'' = None"
  using twin_run [of "''skip''"] by (simp add: twin_defs)

section \<open>The moved counter and the category counts\<close>

text \<open>
  Claim C10. After every file of a run, and in the statistics the run returns, the moved
  counter is the sum of the per-category counts. Processing one file either adds one to both
  (and leaves the skipped and the error counter) or leaves both and adds one to the skipped or
  to the error counter.
\<close>

theorem moved_counter_is_category_sum:
  "verschoben (stats (walk_loop e cfg
        \<lparr>stats = initial_stats, file_hashes = Map.empty, disk = d\<rparr> walk))
     = category_total (stats (walk_loop e cfg
        \<lparr>stats = initial_stats, file_hashes = Map.empty, disk = d\<rparr> walk))
   \<and> (organize_files_by_type e source_dir destination preview_flag date_flag duplicates d walk
         = (Inr s, d') \<longrightarrow> verschoben s = category_total s)
   \<and> (counts_agree (stats st) \<longrightarrow>
        counts_agree (stats (process_file e cfg st root filename))
        \<and> ((verschoben (stats (process_file e cfg st root filename)) = verschoben (stats st) + 1
            \<and> category_total (stats (process_file e cfg st root filename))
                = category_total (stats st) + 1
            \<and> uebersprungen (stats (process_file e cfg st root filename)) = uebersprungen (stats st)
            \<and> fehler (stats (process_file e cfg st root filename)) = fehler (stats st))
          \<or> (verschoben (stats (process_file e cfg st root filename)) = verschoben (stats st)
            \<and> category_total (stats (process_file e cfg st root filename))
                = category_total (stats st)
            \<and> uebersprungen (stats (process_file e cfg st root filename))
                + fehler (stats (process_file e cfg st root filename))
                = uebersprungen (stats st) + fehler (stats st) + 1)))"
proof -
  have "counts_agree (stats (walk_loop e cfg
        \<lparr>stats = initial_stats, file_hashes = Map.empty, disk = d\<rparr> walk))"
    by (rule walk_loop_counts) (simp add: initial_counts)
  then have a: "verschoben (stats (walk_loop e cfg
        \<lparr>stats = initial_stats, file_hashes = Map.empty, disk = d\<rparr> walk))
     = category_total (stats (walk_loop e cfg
        \<lparr>stats = initial_stats, file_hashes = Map.empty, disk = d\<rparr> walk))"
    by (simp add: counts_agree_def)
  have b: "organize_files_by_type e source_dir destination preview_flag date_flag duplicates d walk
         = (Inr s, d') \<longrightarrow> verschoben s = category_total s"
    using organize_counts [of e source_dir destination preview_flag date_flag duplicates d walk s d']
    by (simp add: counts_agree_def)
  from a b process_file_counts [of st e cfg root filename] show ?thesis by blast
qed

theorem moved_counter_is_category_sum_witness:
  "organize_files_by_type example_env ''src'' (Some ''out'') False False ''replace''
       twin_tree twin_walk
     = (Inr \<lparr>verschoben = 2, uebersprungen = 0, fehler = 0, kategorien = [(''Dokumente'', 2)]\<rparr>,
        twin_tree_second)
   \<and> verschoben \<lparr>verschoben = 2, uebersprungen = 0, fehler = 0, kategorien = [(''Dokumente'', 2)]\<rparr>
     = category_total
         \<lparr>verschoben = 2, uebersprungen = 0, fehler = 0, kategorien = [(''Dokumente'', 2)]\<rparr>
   \<and> counts_agree initial_stats
   \<and> counts_agree (stats (process_file example_env (twin_config ''replace'')
        \<lparr>stats = initial_stats, file_hashes = Map.empty, disk = twin_tree_ready\<rparr> ''src/a'' ''x.txt''))
   \<and> verschoben (stats (process_file example_env (twin_config ''replace'')
        \<lparr>stats = initial_stats, file_hashes = Map.empty, disk = twin_tree_ready\<rparr> ''src/a'' ''x.txt''))
      = 1"
proof -
  let ?st = "\<lparr>stats = initial_stats, file_hashes = Map.empty, disk = twin_tree_ready\<rparr>"
  note run = twin_run [of "''replace''"]
  note inst = moved_counter_is_category_sum [of example_env "twin_config ''replace''" twin_tree
      twin_walk "''src''" "Some ''out''" False False "''replace''"
      "\<lparr>verschoben = 2, uebersprungen = 0, fehler = 0, kategorien = [(''Dokumente'', 2)]\<rparr>"
      twin_tree_second ?st "''src/a''" "''x.txt''"]
  have i: "counts_agree (stats ?st)" by (simp add: initial_counts)
  from inst run have s: "verschoben \<lparr>verschoben = 2, uebersprungen = 0, fehler = 0, kategorien = [(''Dokumente'', 2)]\<rparr>
     = category_total
         \<lparr>verschoben = 2, uebersprungen = 0, fehler = 0, kategorien = [(''Dokumente'', 2)]\<rparr>"
    by blast
  from inst i have c: "counts_agree (stats (process_file example_env (twin_config ''replace'')
        ?st ''src/a'' ''x.txt''))" by blast
  have v: "verschoben (stats (process_file example_env (twin_config ''replace'') ?st ''src/a'' ''x.txt'')) = 1"
    by (simp add: twin_first_step)
  from run s c v initial_counts show ?thesis by simp
qed


section \<open>A first collision\<close>


lemma collision_unrecorded_step:
  assumes "\<not> already_organized root"
    and "plan_target_dir e cfg (disk st) (path_join root filename)
           (get_category_for_extension (snd (splitext filename))) = (Inr target_dir, d1)"
    and "path_exists d1 (path_join target_dir filename)"
    and "\<not> (truthy (get_file_hash e d1 (path_join root filename))
            \<and> file_hashes st (get_file_hash e d1 (path_join root filename)) \<noteq> None)"
    and "\<not> preview cfg"
    and "move d1 (path_join root filename) (path_join target_dir filename) = (None, d2)"
  shows "process_file e cfg st root filename =
           st\<lparr>stats := count_moved (get_category_for_extension (snd (splitext filename)))
                  ((stats st)\<lparr>kategorien := init_category
                      (get_category_for_extension (snd (splitext filename)))
                      (kategorien (stats st))\<rparr>),
              file_hashes := (file_hashes st)
                  (get_file_hash e d1 (path_join root filename) \<mapsto> path_join target_dir filename),
              disk := d2\<rparr>"
proof -
  have "resolve_target e cfg d1 (file_hashes st) (path_join root filename) target_dir filename
        = (Some (path_join target_dir filename),
           (file_hashes st)(get_file_hash e d1 (path_join root filename)
              \<mapsto> path_join target_dir filename))"
    using assms(3,4) by (rule resolve_target_unrecorded)
  from try_body_move [OF assms(2) this assms(5,6)] assms(1) show ?thesis
    by (simp add: process_file_result)
qed




section \<open>A failing hash\<close>

lemma try_body_resolved:
  assumes "plan_target_dir e cfg (disk st) (path_join root filename)
             (get_category_for_extension (snd (splitext filename))) = (Inr target_dir, d1)"
    and "resolve_target e cfg d1 (file_hashes st) (path_join root filename) target_dir filename
           = (Some target_path, hashes')"
  shows "try_body e cfg st root filename =
     (if preview cfg then
        (None, st\<lparr>stats := count_moved (get_category_for_extension (snd (splitext filename)))
                        ((stats st)\<lparr>kategorien := init_category
                            (get_category_for_extension (snd (splitext filename)))
                            (kategorien (stats st))\<rparr>),
                  file_hashes := hashes', disk := d1\<rparr>)
      else (case move d1 (path_join root filename) target_path of
              (None, d2) \<Rightarrow>
                (None, st\<lparr>stats := count_moved (get_category_for_extension (snd (splitext filename)))
                        ((stats st)\<lparr>kategorien := init_category
                            (get_category_for_extension (snd (splitext filename)))
                            (kategorien (stats st))\<rparr>),
                  file_hashes := hashes', disk := d2\<rparr>)
            | (Some err, d2) \<Rightarrow>
                (Some err, st\<lparr>stats := (stats st)\<lparr>kategorien := init_category
                            (get_category_for_extension (snd (splitext filename)))
                            (kategorien (stats st))\<rparr>,
                  file_hashes := hashes', disk := d2\<rparr>)))"
  using assms by (simp add: try_body_def Let_def split_beta split: prod.splits option.splits)

lemma process_file_raised:
  "\<not> already_organized root \<Longrightarrow> try_body e cfg st root filename = (Some err, st') \<Longrightarrow>
     process_file e cfg st root filename = st'\<lparr>stats := count_error (stats st')\<rparr>"
  by (simp add: process_file_def)

lemma src_root: "\<not> already_organized ''src''"
  by (simp add: already_organized_def category_names_def FILE_CATEGORIES_def sublist_code)

lemma locked_hash: "get_file_hash example_env locked_tree ''src/x.txt'' = None"
  by (simp add: get_file_hash_def locked_tree_def unreadable_file_def)

lemma locked_move:
  "move locked_tree ''src/x.txt'' ''out/Dokumente/x.txt'' = (None, locked_tree_after)"
  by (auto simp: move_def os_rename_def locked_tree_def locked_tree_after_def out_dirs_def dirname_x
      path_exists_def fun_eq_iff)

lemma locked_step:
  "process_file example_env (twin_config strategy)
     \<lparr>stats = initial_stats, file_hashes = Map.empty, disk = locked_tree\<rparr> ''src'' ''x.txt''
   = \<lparr>stats = \<lparr>verschoben = 1, uebersprungen = 0, fehler = 0, kategorien = [(''Dokumente'', 1)]\<rparr>,
      file_hashes = [None \<mapsto> ''out/Dokumente/x.txt''], disk = locked_tree_after\<rparr>"
proof -
  let ?cfg = "twin_config strategy"
  let ?st = "\<lparr>stats = initial_stats, file_hashes = Map.empty, disk = locked_tree\<rparr>"
  have j: "path_join ''src'' ''x.txt'' = ''src/x.txt''" by (simp add: path_join_def)
  have t: "path_join ''out/Dokumente'' ''x.txt'' = ''out/Dokumente/x.txt''"
    by (simp add: path_join_def)
  have p: "plan_target_dir example_env ?cfg (disk ?st) (path_join ''src'' ''x.txt'')
             (get_category_for_extension (snd (splitext ''x.txt'')))
             = (Inr ''out/Dokumente'', locked_tree)"
    by (simp add: plan_target_dir_plain twin_config_def path_join_def x_txt)
  have ex: "path_exists locked_tree (path_join ''out/Dokumente'' ''x.txt'')"
    by (simp add: path_exists_def locked_tree_def t)
  have nr: "\<not> (truthy (get_file_hash example_env locked_tree (path_join ''src'' ''x.txt''))
            \<and> file_hashes ?st (get_file_hash example_env locked_tree (path_join ''src'' ''x.txt'')) \<noteq> None)"
    by (simp add: j locked_hash truthy_def)
  have np: "\<not> preview ?cfg" by (simp add: twin_config_def)
  have mv: "move locked_tree (path_join ''src'' ''x.txt'') (path_join ''out/Dokumente'' ''x.txt'')
            = (None, locked_tree_after)"
    by (simp add: j t locked_move)
  from collision_unrecorded_step [OF src_root p ex nr np mv] show ?thesis
    by (simp add: j t x_txt locked_hash count_moved_def init_category_def incr_category_def
        initial_stats_def)
qed

text \<open>
  Claim C2 as stated fails. The source \<open>src/x.txt\<close> cannot be read, so its hash is absent,
  and \<open>out/Dokumente/x.txt\<close> exists with another content. Under \<open>skip\<close> and under
  \<open>rename\<close> the source is moved onto that path and the content that was there is gone.
\<close>

theorem hash_failure_overwrites_destination:
  "path_exists locked_tree ''out/Dokumente/x.txt''
   \<and> files locked_tree ''out/Dokumente/x.txt'' = Some example_file
   \<and> get_file_hash example_env locked_tree ''src/x.txt'' = None
   \<and> files (disk (process_file example_env (twin_config ''skip'')
        \<lparr>stats = initial_stats, file_hashes = Map.empty, disk = locked_tree\<rparr> ''src'' ''x.txt''))
        ''out/Dokumente/x.txt'' = Some unreadable_file
   \<and> files (disk (process_file example_env (twin_config ''rename'')
        \<lparr>stats = initial_stats, file_hashes = Map.empty, disk = locked_tree\<rparr> ''src'' ''x.txt''))
        ''out/Dokumente/x.txt'' = Some unreadable_file
   \<and> dom (files (disk (process_file example_env (twin_config ''rename'')
        \<lparr>stats = initial_stats, file_hashes = Map.empty, disk = locked_tree\<rparr> ''src'' ''x.txt'')))
        = {''out/Dokumente/x.txt''}
   \<and> content unreadable_file \<noteq> content example_file"
  by (simp add: locked_step locked_hash)
     (simp add: locked_tree_def locked_tree_after_def path_exists_def unreadable_file_def
        example_file_def)

text \<open>
  Claim C2, as amended. When the planned target path exists and hashing the source file
  fails, no strategy branch is taken, whatever the configured strategy: the file is neither
  skipped nor renamed, the planned target path is kept, the absent hash is recorded against it
  in the index, and the file goes on to the move with the planned path as its destination (in
  preview it is counted as moved).
\<close>

theorem hash_failure_keeps_planned_path:
  assumes "\<not> already_organized root"
    and "source_path = path_join root filename"
    and "category = get_category_for_extension (snd (splitext filename))"
    and "plan_target_dir e cfg (disk st) source_path category = (Inr target_dir, d1)"
    and "target_path = path_join target_dir filename"
    and "path_exists d1 target_path"
    and "get_file_hash e d1 source_path = None"
  shows "resolve_target e cfg d1 (file_hashes st) source_path target_dir filename
           = (Some target_path, (file_hashes st)(None \<mapsto> target_path))
       \<and> process_file e cfg st root filename =
          (if preview cfg then
             st\<lparr>stats := count_moved category
                    ((stats st)\<lparr>kategorien := init_category category (kategorien (stats st))\<rparr>),
                file_hashes := (file_hashes st)(None \<mapsto> target_path), disk := d1\<rparr>
           else (case move d1 source_path target_path of
                   (None, d2) \<Rightarrow>
                     st\<lparr>stats := count_moved category
                            ((stats st)\<lparr>kategorien := init_category category (kategorien (stats st))\<rparr>),
                        file_hashes := (file_hashes st)(None \<mapsto> target_path), disk := d2\<rparr>
                 | (Some err, d2) \<Rightarrow>
                     st\<lparr>stats := count_error
                            ((stats st)\<lparr>kategorien := init_category category (kategorien (stats st))\<rparr>),
                        file_hashes := (file_hashes st)(None \<mapsto> target_path), disk := d2\<rparr>))"
proof -
  have r: "resolve_target e cfg d1 (file_hashes st) (path_join root filename) target_dir filename
           = (Some (path_join target_dir filename),
              (file_hashes st)(None \<mapsto> path_join target_dir filename))"
    using resolve_target_unrecorded [of d1 target_dir filename e "path_join root filename"
        "file_hashes st" cfg] assms(2,5,6,7)
    by (simp add: truthy_def)
  have p: "plan_target_dir e cfg (disk st) (path_join root filename)
             (get_category_for_extension (snd (splitext filename))) = (Inr target_dir, d1)"
    using assms(2,3,4) by simp
  from try_body_resolved [OF p r] assms(1) have
    "process_file e cfg st root filename =
          (if preview cfg then
             st\<lparr>stats := count_moved category
                    ((stats st)\<lparr>kategorien := init_category category (kategorien (stats st))\<rparr>),
                file_hashes := (file_hashes st)(None \<mapsto> target_path), disk := d1\<rparr>
           else (case move d1 source_path target_path of
                   (None, d2) \<Rightarrow>
                     st\<lparr>stats := count_moved category
                            ((stats st)\<lparr>kategorien := init_category category (kategorien (stats st))\<rparr>),
                        file_hashes := (file_hashes st)(None \<mapsto> target_path), disk := d2\<rparr>
                 | (Some err, d2) \<Rightarrow>
                     st\<lparr>stats := count_error
                            ((stats st)\<lparr>kategorien := init_category category (kategorien (stats st))\<rparr>),
                        file_hashes := (file_hashes st)(None \<mapsto> target_path), disk := d2\<rparr>))"
    by (simp add: process_file_def assms(2,3,5) split: prod.splits option.splits)
  with r assms(2,5) show ?thesis by simp
qed

theorem hash_failure_keeps_planned_path_witness:
  "path_exists locked_tree ''out/Dokumente/x.txt''
   \<and> get_file_hash example_env locked_tree ''src/x.txt'' = None
   \<and> resolve_target example_env (twin_config ''rename'') locked_tree Map.empty ''src/x.txt''
        ''out/Dokumente'' ''x.txt''
      = (Some ''out/Dokumente/x.txt'', [None \<mapsto> ''out/Dokumente/x.txt''])
   \<and> process_file example_env (twin_config ''rename'')
        \<lparr>stats = initial_stats, file_hashes = Map.empty, disk = locked_tree\<rparr> ''src'' ''x.txt''
      = \<lparr>stats = \<lparr>verschoben = 1, uebersprungen = 0, fehler = 0, kategorien = [(''Dokumente'', 1)]\<rparr>,
         file_hashes = [None \<mapsto> ''out/Dokumente/x.txt''], disk = locked_tree_after\<rparr>"
proof -
  let ?cfg = "twin_config ''rename''"
  let ?st = "\<lparr>stats = initial_stats, file_hashes = Map.empty, disk = locked_tree\<rparr>"
  have a: "''src/x.txt'' = path_join ''src'' ''x.txt''" by (simp add: path_join_def)
  have b: "''Dokumente'' = get_category_for_extension (snd (splitext ''x.txt''))"
    by (simp add: x_txt)
  have c: "plan_target_dir example_env ?cfg (disk ?st) ''src/x.txt'' ''Dokumente''
           = (Inr ''out/Dokumente'', locked_tree)"
    by (simp add: plan_target_dir_plain twin_config_def path_join_def)
  have d: "''out/Dokumente/x.txt'' = path_join ''out/Dokumente'' ''x.txt''"
    by (simp add: path_join_def)
  have ex: "path_exists locked_tree ''out/Dokumente/x.txt''"
    by (simp add: path_exists_def locked_tree_def)
  note inst = hash_failure_keeps_planned_path [OF src_root a b c d ex locked_hash]
  have np: "\<not> preview ?cfg" by (simp add: twin_config_def)
  from inst have r: "resolve_target example_env ?cfg locked_tree Map.empty ''src/x.txt''
        ''out/Dokumente'' ''x.txt''
      = (Some ''out/Dokumente/x.txt'', [None \<mapsto> ''out/Dokumente/x.txt''])"
    by simp
  from inst np have "process_file example_env ?cfg ?st ''src'' ''x.txt''
      = ?st\<lparr>stats := count_moved ''Dokumente''
                ((stats ?st)\<lparr>kategorien := init_category ''Dokumente'' (kategorien (stats ?st))\<rparr>),
            file_hashes := (file_hashes ?st)(None \<mapsto> ''out/Dokumente/x.txt''),
            disk := locked_tree_after\<rparr>"
    by (simp add: locked_move)
  then have "process_file example_env ?cfg ?st ''src'' ''x.txt''
      = \<lparr>stats = \<lparr>verschoben = 1, uebersprungen = 0, fehler = 0, kategorien = [(''Dokumente'', 1)]\<rparr>,
         file_hashes = [None \<mapsto> ''out/Dokumente/x.txt''], disk = locked_tree_after\<rparr>"
    by (simp add: count_moved_def init_category_def incr_category_def initial_stats_def)
  with ex locked_hash r show ?thesis by simp
qed


section \<open>Exceptions while a file is processed\<close>

lemma try_body_plan_raised:
  assumes "plan_target_dir e cfg (disk st) (path_join root filename)
             (get_category_for_extension (snd (splitext filename))) = (Inl err, d1)"
  shows "try_body e cfg st root filename =
           (Some err, st\<lparr>stats := (stats st)\<lparr>kategorien := init_category
                            (get_category_for_extension (snd (splitext filename)))
                            (kategorien (stats st))\<rparr>,
                         disk := d1\<rparr>)"
  using assms by (simp add: try_body_def Let_def split_beta)

lemma try_body_raised_counters:
  assumes "try_body e cfg st root filename = (Some err, st')"
  shows "fehler (stats st') = fehler (stats st) \<and> verschoben (stats st') = verschoben (stats st)
       \<and> uebersprungen (stats st') = uebersprungen (stats st)"
  using try_body_stats [OF assms] by auto

lemma organize_preview_returns:
  "\<exists>s. fst (organize_files_by_type e source_dir destination True date_flag duplicates d walk) = Inr s"
  by (simp add: organize_files_by_type_def Let_def)

lemma organize_returns:
  assumes "fst (create_category_dirs d
             (case destination of None \<Rightarrow> source_dir | Some p \<Rightarrow> if p = [] then source_dir else p)
             category_names) = None"
  shows "\<exists>s. fst (organize_files_by_type e source_dir destination False date_flag duplicates d walk)
           = Inr s"
  using assms by (auto simp: organize_files_by_type_def Let_def split: prod.splits option.splits)

text \<open>
  Claim C6 as stated fails for a hash failure: \<^verbatim>\<open>get_file_hash\<close> catches it and returns no
  hash, the error counter stays at zero and the file is counted as moved.
\<close>

theorem hash_failure_is_not_counted_as_error:
  "get_file_hash example_env locked_tree ''src/x.txt'' = None
   \<and> path_exists locked_tree ''out/Dokumente/x.txt''
   \<and> stats (process_file example_env (twin_config ''rename'')
        \<lparr>stats = initial_stats, file_hashes = Map.empty, disk = locked_tree\<rparr> ''src'' ''x.txt'')
      = \<lparr>verschoben = 1, uebersprungen = 0, fehler = 0, kategorien = [(''Dokumente'', 1)]\<rparr>"
  by (simp add: locked_step locked_hash) (simp add: locked_tree_def path_exists_def)

lemma hash_failure_counters:
  assumes "\<not> already_organized root"
    and "plan_target_dir e cfg (disk st) (path_join root filename)
           (get_category_for_extension (snd (splitext filename))) = (Inr target_dir, d1)"
    and "path_exists d1 (path_join target_dir filename)"
    and "get_file_hash e d1 (path_join root filename) = None"
  shows "fehler (stats (process_file e cfg st root filename))
           = (if preview cfg
                 \<or> fst (move d1 (path_join root filename) (path_join target_dir filename)) = None
              then fehler (stats st) else fehler (stats st) + 1)
       \<and> verschoben (stats (process_file e cfg st root filename))
           = (if preview cfg
                 \<or> fst (move d1 (path_join root filename) (path_join target_dir filename)) = None
              then verschoben (stats st) + 1 else verschoben (stats st))
       \<and> uebersprungen (stats (process_file e cfg st root filename)) = uebersprungen (stats st)"
proof -
  have r: "resolve_target e cfg d1 (file_hashes st) (path_join root filename) target_dir filename
           = (Some (path_join target_dir filename),
              (file_hashes st)(get_file_hash e d1 (path_join root filename)
                 \<mapsto> path_join target_dir filename))"
    using assms(3,4) by (simp add: resolve_target_unrecorded truthy_def)
  show ?thesis
    using try_body_resolved [OF assms(2) r] assms(1)
    by (cases "move d1 (path_join root filename) (path_join target_dir filename)")
       (auto simp: process_file_def count_moved_def count_error_def)
qed

text \<open>
  Claim C6, as amended. Every exception raised while one file is processed (a failing read of
  the modification time, a failing creation of the date directory, a failing move) is caught
  at the file boundary: it adds exactly one to the error counter and nothing to the moved and
  the skipped counter, and the walk goes on with the next file. The run returns its statistics
  whenever the category directories could be made before the walk, and always in preview. A
  hash failure is not one of these exceptions: it yields an absent hash inside
  \<^verbatim>\<open>get_file_hash\<close>, and a file whose hash fails is counted as moved and not as an error,
  unless its move raises.
\<close>

theorem file_exceptions_are_counted_and_passed:
  "(\<not> already_organized root \<and> try_body e cfg st root filename = (Some err, st') \<longrightarrow>
      process_file e cfg st root filename
        = st'\<lparr>stats := (stats st')\<lparr>fehler := fehler (stats st') + 1\<rparr>\<rparr>
    \<and> fehler (stats (process_file e cfg st root filename)) = fehler (stats st) + 1
    \<and> verschoben (stats (process_file e cfg st root filename)) = verschoben (stats st)
    \<and> uebersprungen (stats (process_file e cfg st root filename)) = uebersprungen (stats st)
    \<and> walk_loop e cfg st ((root, filename # rest) # later)
        = walk_loop e cfg (st'\<lparr>stats := (stats st')\<lparr>fehler := fehler (stats st') + 1\<rparr>\<rparr>)
            ((root, rest) # later))
   \<and> (plan_target_dir e cfg (disk st) (path_join root filename)
         (get_category_for_extension (snd (splitext filename))) = (Inl err1, d1)
       \<longrightarrow> fst (try_body e cfg st root filename) = Some err1)
   \<and> (plan_target_dir e cfg (disk st) (path_join root filename)
         (get_category_for_extension (snd (splitext filename))) = (Inr target_dir, d1)
       \<and> resolve_target e cfg d1 (file_hashes st) (path_join root filename) target_dir filename
           = (Some target_path, hashes')
       \<and> \<not> preview cfg
       \<and> fst (move d1 (path_join root filename) target_path) = Some err2
       \<longrightarrow> fst (try_body e cfg st root filename) = Some err2)
   \<and> (\<not> already_organized root
       \<and> plan_target_dir e cfg (disk st) (path_join root filename)
           (get_category_for_extension (snd (splitext filename))) = (Inr target_dir, d1)
       \<and> path_exists d1 (path_join target_dir filename)
       \<and> get_file_hash e d1 (path_join root filename) = None
       \<longrightarrow> fehler (stats (process_file e cfg st root filename))
             = (if preview cfg
                   \<or> fst (move d1 (path_join root filename) (path_join target_dir filename)) = None
                then fehler (stats st) else fehler (stats st) + 1)
         \<and> verschoben (stats (process_file e cfg st root filename))
             = (if preview cfg
                   \<or> fst (move d1 (path_join root filename) (path_join target_dir filename)) = None
                then verschoben (stats st) + 1 else verschoben (stats st))
         \<and> uebersprungen (stats (process_file e cfg st root filename))
             = uebersprungen (stats st))
   \<and> (\<exists>s. fst (organize_files_by_type e source_dir destination True date_flag duplicates d walk)
           = Inr s)
   \<and> (fst (create_category_dirs d
             (case destination of None \<Rightarrow> source_dir | Some p \<Rightarrow> if p = [] then source_dir else p)
             category_names) = None
       \<longrightarrow> (\<exists>s. fst (organize_files_by_type e source_dir destination False date_flag duplicates
                       d walk) = Inr s))"
proof -
  have a: "\<not> already_organized root \<and> try_body e cfg st root filename = (Some err, st') \<longrightarrow>
      process_file e cfg st root filename
        = st'\<lparr>stats := (stats st')\<lparr>fehler := fehler (stats st') + 1\<rparr>\<rparr>
    \<and> fehler (stats (process_file e cfg st root filename)) = fehler (stats st) + 1
    \<and> verschoben (stats (process_file e cfg st root filename)) = verschoben (stats st)
    \<and> uebersprungen (stats (process_file e cfg st root filename)) = uebersprungen (stats st)
    \<and> walk_loop e cfg st ((root, filename # rest) # later)
        = walk_loop e cfg (st'\<lparr>stats := (stats st')\<lparr>fehler := fehler (stats st') + 1\<rparr>\<rparr>)
            ((root, rest) # later)"
  proof (intro impI, elim conjE)
    assume n: "\<not> already_organized root" and b: "try_body e cfg st root filename = (Some err, st')"
    have p: "process_file e cfg st root filename
        = st'\<lparr>stats := (stats st')\<lparr>fehler := fehler (stats st') + 1\<rparr>\<rparr>"
      using process_file_raised [OF n b] by (simp add: count_error_def)
    from try_body_raised_counters [OF b] p show "process_file e cfg st root filename
        = st'\<lparr>stats := (stats st')\<lparr>fehler := fehler (stats st') + 1\<rparr>\<rparr>
      \<and> fehler (stats (process_file e cfg st root filename)) = fehler (stats st) + 1
      \<and> verschoben (stats (process_file e cfg st root filename)) = verschoben (stats st)
      \<and> uebersprungen (stats (process_file e cfg st root filename)) = uebersprungen (stats st)
      \<and> walk_loop e cfg st ((root, filename # rest) # later)
          = walk_loop e cfg (st'\<lparr>stats := (stats st')\<lparr>fehler := fehler (stats st') + 1\<rparr>\<rparr>)
              ((root, rest) # later)"
      by simp
  qed
  have b: "plan_target_dir e cfg (disk st) (path_join root filename)
         (get_category_for_extension (snd (splitext filename))) = (Inl err1, d1)
       \<longrightarrow> fst (try_body e cfg st root filename) = Some err1"
    by (simp add: try_body_plan_raised)
  have c: "plan_target_dir e cfg (disk st) (path_join root filename)
         (get_category_for_extension (snd (splitext filename))) = (Inr target_dir, d1)
       \<and> resolve_target e cfg d1 (file_hashes st) (path_join root filename) target_dir filename
           = (Some target_path, hashes')
       \<and> \<not> preview cfg
       \<and> fst (move d1 (path_join root filename) target_path) = Some err2
       \<longrightarrow> fst (try_body e cfg st root filename) = Some err2"
    by (auto simp: try_body_resolved split: prod.splits option.splits)
  have h: "\<not> already_organized root
       \<and> plan_target_dir e cfg (disk st) (path_join root filename)
           (get_category_for_extension (snd (splitext filename))) = (Inr target_dir, d1)
       \<and> path_exists d1 (path_join target_dir filename)
       \<and> get_file_hash e d1 (path_join root filename) = None
       \<longrightarrow> fehler (stats (process_file e cfg st root filename))
             = (if preview cfg
                   \<or> fst (move d1 (path_join root filename) (path_join target_dir filename)) = None
                then fehler (stats st) else fehler (stats st) + 1)
         \<and> verschoben (stats (process_file e cfg st root filename))
             = (if preview cfg
                   \<or> fst (move d1 (path_join root filename) (path_join target_dir filename)) = None
                then verschoben (stats st) + 1 else verschoben (stats st))
         \<and> uebersprungen (stats (process_file e cfg st root filename))
             = uebersprungen (stats st)"
  proof (intro impI, elim conjE)
    assume "\<not> already_organized root"
      and "plan_target_dir e cfg (disk st) (path_join root filename)
           (get_category_for_extension (snd (splitext filename))) = (Inr target_dir, d1)"
      and "path_exists d1 (path_join target_dir filename)"
      and "get_file_hash e d1 (path_join root filename) = None"
    then show "fehler (stats (process_file e cfg st root filename))
             = (if preview cfg
                   \<or> fst (move d1 (path_join root filename) (path_join target_dir filename)) = None
                then fehler (stats st) else fehler (stats st) + 1)
         \<and> verschoben (stats (process_file e cfg st root filename))
             = (if preview cfg
                   \<or> fst (move d1 (path_join root filename) (path_join target_dir filename)) = None
                then verschoben (stats st) + 1 else verschoben (stats st))
         \<and> uebersprungen (stats (process_file e cfg st root filename))
             = uebersprungen (stats st)"
      by (rule hash_failure_counters)
  qed
  have d: "\<exists>s. fst (organize_files_by_type e source_dir destination True date_flag duplicates
      d walk) = Inr s"
    by (rule organize_preview_returns)
  have e: "fst (create_category_dirs d
             (case destination of None \<Rightarrow> source_dir | Some p \<Rightarrow> if p = [] then source_dir else p)
             category_names) = None
       \<longrightarrow> (\<exists>s. fst (organize_files_by_type e source_dir destination False date_flag duplicates
                       d walk) = Inr s)"
    using organize_returns by blast
  from a b c h d e show ?thesis by (intro conjI)
qed

lemma ab_txt:
  "get_category_for_extension (snd (splitext ''a.txt'')) = ''Dokumente''"
  "get_category_for_extension (snd (splitext ''b.txt'')) = ''Dokumente''"
  by (simp_all add: splitext_def rfind_def get_category_for_extension_def FILE_CATEGORIES_def
      lower_char_def)

lemmas denied_defs = denied_tree_def denied_tree_first_def denied_tree_after_def out_dirs_def

lemma dirname_ab:
  "dirname ''out/Dokumente/a.txt'' = ''out/Dokumente''"
  "dirname ''out/Dokumente/b.txt'' = ''out/Dokumente''"
  by (simp_all add: dirname_def rfind_def rstrip_sep_def)

lemma denied_rename_a:
  "os_rename denied_tree ''src/a.txt'' ''out/Dokumente/a.txt'' = (Some PermissionError, denied_tree)"
  by (simp add: os_rename_def denied_defs dirname_ab)

lemma denied_copy_a:
  "copy2 denied_tree ''src/a.txt'' ''out/Dokumente/a.txt'' = (None, denied_tree_first)"
  by (auto simp: copy2_def denied_defs dirname_ab example_file_def fun_eq_iff)

lemma denied_unlink_a:
  "os_unlink denied_tree_first ''src/a.txt'' = (Some PermissionError, denied_tree_first)"
  by (simp add: os_unlink_def denied_defs)

lemma denied_move_a:
  "move denied_tree ''src/a.txt'' ''out/Dokumente/a.txt''
   = (Some PermissionError, denied_tree_first)"
proof -
  have "''out/Dokumente/a.txt'' \<notin> dirs denied_tree" by (simp add: denied_defs)
  then show ?thesis
    by (simp add: move_def denied_rename_a denied_copy_a denied_unlink_a)
qed

lemma denied_move_b:
  "move denied_tree_first ''src/b.txt'' ''out/Dokumente/b.txt'' = (None, denied_tree_after)"
  by (auto simp: move_def os_rename_def denied_defs dirname_ab path_exists_def fun_eq_iff)

theorem file_exceptions_are_counted_and_passed_witness:
  "os_rename denied_tree ''src/a.txt'' ''out/Dokumente/a.txt'' = (Some PermissionError, denied_tree)
   \<and> copy2 denied_tree ''src/a.txt'' ''out/Dokumente/a.txt'' = (None, denied_tree_first)
   \<and> os_unlink denied_tree_first ''src/a.txt'' = (Some PermissionError, denied_tree_first)
   \<and> move denied_tree ''src/a.txt'' ''out/Dokumente/a.txt''
      = (Some PermissionError, denied_tree_first)
   \<and> try_body example_env (twin_config ''rename'')
        \<lparr>stats = initial_stats, file_hashes = Map.empty, disk = denied_tree\<rparr> ''src'' ''a.txt''
      = (Some PermissionError,
         \<lparr>stats = \<lparr>verschoben = 0, uebersprungen = 0, fehler = 0, kategorien = [(''Dokumente'', 0)]\<rparr>,
          file_hashes = Map.empty, disk = denied_tree_first\<rparr>)
   \<and> process_file example_env (twin_config ''rename'')
        \<lparr>stats = initial_stats, file_hashes = Map.empty, disk = denied_tree\<rparr> ''src'' ''a.txt''
      = \<lparr>stats = \<lparr>verschoben = 0, uebersprungen = 0, fehler = 1, kategorien = [(''Dokumente'', 0)]\<rparr>,
         file_hashes = Map.empty, disk = denied_tree_first\<rparr>
   \<and> walk_loop example_env (twin_config ''rename'')
        \<lparr>stats = initial_stats, file_hashes = Map.empty, disk = denied_tree\<rparr>
        [(''src'', [''a.txt'', ''b.txt''])]
      = \<lparr>stats = \<lparr>verschoben = 1, uebersprungen = 0, fehler = 1, kategorien = [(''Dokumente'', 1)]\<rparr>,
         file_hashes = Map.empty, disk = denied_tree_after\<rparr>
   \<and> get_file_hash example_env locked_tree ''src/x.txt'' = None
   \<and> path_exists locked_tree ''out/Dokumente/x.txt''
   \<and> fst (move locked_tree ''src/x.txt'' ''out/Dokumente/x.txt'') = None
   \<and> fehler (stats (process_file example_env (twin_config ''rename'')
        \<lparr>stats = initial_stats, file_hashes = Map.empty, disk = locked_tree\<rparr> ''src'' ''x.txt'')) = 0
   \<and> verschoben (stats (process_file example_env (twin_config ''rename'')
        \<lparr>stats = initial_stats, file_hashes = Map.empty, disk = locked_tree\<rparr> ''src'' ''x.txt'')) = 1"
proof -
  let ?cfg = "twin_config ''rename''"
  let ?st = "\<lparr>stats = initial_stats, file_hashes = Map.empty, disk = denied_tree\<rparr>"
  let ?sa = "\<lparr>stats = \<lparr>verschoben = 0, uebersprungen = 0, fehler = 0, kategorien = [(''Dokumente'', 0)]\<rparr>,
          file_hashes = Map.empty, disk = denied_tree_first\<rparr>"
  let ?sb = "\<lparr>stats = \<lparr>verschoben = 0, uebersprungen = 0, fehler = 1, kategorien = [(''Dokumente'', 0)]\<rparr>,
         file_hashes = Map.empty, disk = denied_tree_first\<rparr>"
  let ?sl = "\<lparr>stats = initial_stats, file_hashes = Map.empty, disk = locked_tree\<rparr>"
  have np: "\<not> preview ?cfg" by (simp add: twin_config_def)
  have ja: "path_join ''src'' ''a.txt'' = ''src/a.txt''"
    and jb: "path_join ''src'' ''b.txt'' = ''src/b.txt''"
    and jx: "path_join ''src'' ''x.txt'' = ''src/x.txt''"
    and ta: "path_join ''out/Dokumente'' ''a.txt'' = ''out/Dokumente/a.txt''"
    and tb: "path_join ''out/Dokumente'' ''b.txt'' = ''out/Dokumente/b.txt''"
    and tx: "path_join ''out/Dokumente'' ''x.txt'' = ''out/Dokumente/x.txt''"
    by (simp_all add: path_join_def)
  have pa: "plan_target_dir example_env ?cfg (disk ?st) (path_join ''src'' ''a.txt'')
             (get_category_for_extension (snd (splitext ''a.txt''))) = (Inr ''out/Dokumente'', denied_tree)"
    by (simp add: plan_target_dir_plain twin_config_def ab_txt) (simp add: path_join_def)
  have "\<not> path_exists denied_tree (path_join ''out/Dokumente'' ''a.txt'')"
    by (simp add: ta path_exists_def denied_tree_def out_dirs_def)
  then have ra: "resolve_target example_env ?cfg denied_tree (file_hashes ?st)
      (path_join ''src'' ''a.txt'') ''out/Dokumente'' ''a.txt'' = (Some ''out/Dokumente/a.txt'', Map.empty)"
    by (simp add: resolve_target_fresh ta)
  have body: "try_body example_env ?cfg ?st ''src'' ''a.txt'' = (Some PermissionError, ?sa)"
    using try_body_resolved [OF pa ra] np
    by (simp add: ja denied_move_a ab_txt init_category_def initial_stats_def)
  note inst = file_exceptions_are_counted_and_passed [where root = "''src''" and e = example_env
      and cfg = ?cfg and st = ?st and filename = "''a.txt''" and err = PermissionError
      and st' = ?sa and rest = "[''b.txt'']" and later = "[]"]
  from inst src_root body have first: "process_file example_env ?cfg ?st ''src'' ''a.txt'' = ?sb"
    by simp
  from inst src_root body have continue:
    "walk_loop example_env ?cfg ?st [(''src'', [''a.txt'', ''b.txt''])]
     = walk_loop example_env ?cfg ?sb [(''src'', [''b.txt''])]"
    by simp
  have pb: "plan_target_dir example_env ?cfg (disk ?sb) (path_join ''src'' ''b.txt'')
             (get_category_for_extension (snd (splitext ''b.txt'')))
            = (Inr ''out/Dokumente'', denied_tree_first)"
    by (simp add: plan_target_dir_plain twin_config_def ab_txt) (simp add: path_join_def)
  have "\<not> path_exists denied_tree_first (path_join ''out/Dokumente'' ''b.txt'')"
    by (simp add: tb path_exists_def denied_defs)
  then have rb: "resolve_target example_env ?cfg denied_tree_first (file_hashes ?sb)
      (path_join ''src'' ''b.txt'') ''out/Dokumente'' ''b.txt'' = (Some ''out/Dokumente/b.txt'', Map.empty)"
    by (simp add: resolve_target_fresh tb)
  have mb: "move denied_tree_first (path_join ''src'' ''b.txt'') ''out/Dokumente/b.txt''
            = (None, denied_tree_after)"
    by (simp add: jb denied_move_b)
  have "process_file example_env ?cfg ?sb ''src'' ''b.txt''
      = \<lparr>stats = \<lparr>verschoben = 1, uebersprungen = 0, fehler = 1, kategorien = [(''Dokumente'', 1)]\<rparr>,
         file_hashes = Map.empty, disk = denied_tree_after\<rparr>"
    using process_file_result [OF src_root try_body_move [OF pb rb np mb]]
    by (simp add: ab_txt count_moved_def init_category_def incr_category_def)
  with continue have run: "walk_loop example_env ?cfg ?st [(''src'', [''a.txt'', ''b.txt''])]
      = \<lparr>stats = \<lparr>verschoben = 1, uebersprungen = 0, fehler = 1, kategorien = [(''Dokumente'', 1)]\<rparr>,
         file_hashes = Map.empty, disk = denied_tree_after\<rparr>"
    by simp
  have pl: "plan_target_dir example_env ?cfg (disk ?sl) (path_join ''src'' ''x.txt'')
             (get_category_for_extension (snd (splitext ''x.txt'')))
            = (Inr ''out/Dokumente'', locked_tree)"
    by (simp add: plan_target_dir_plain twin_config_def x_txt) (simp add: path_join_def)
  have ex: "path_exists locked_tree ''out/Dokumente/x.txt''"
    by (simp add: path_exists_def locked_tree_def)
  have mv: "fst (move locked_tree ''src/x.txt'' ''out/Dokumente/x.txt'') = None"
    by (simp add: locked_move)
  note hash = file_exceptions_are_counted_and_passed [where root = "''src''" and e = example_env
      and cfg = ?cfg and st = ?sl and filename = "''x.txt''" and target_dir = "''out/Dokumente''"
      and ?d1.0 = locked_tree]
  from hash src_root pl ex locked_hash mv have counted:
    "fehler (stats (process_file example_env ?cfg ?sl ''src'' ''x.txt'')) = 0
     \<and> verschoben (stats (process_file example_env ?cfg ?sl ''src'' ''x.txt'')) = 1"
    by (simp add: jx tx initial_stats_def)
  from denied_rename_a denied_copy_a denied_unlink_a denied_move_a body first run locked_hash ex mv
    counted
  show ?thesis by (intro conjI) simp_all
qed


section \<open>Preview\<close>

lemma plan_target_dir_preview:
  "preview cfg \<Longrightarrow> snd (plan_target_dir e cfg d source_path category) = d"
  by (simp add: plan_target_dir_def Let_def split: sum.splits)

lemma try_body_preview_disk:
  "preview cfg \<Longrightarrow> disk (snd (try_body e cfg st root filename)) = disk st"
  using plan_target_dir_preview [of cfg e "disk st" "path_join root filename"
      "get_category_for_extension (snd (splitext filename))"]
  by (auto simp: try_body_def Let_def split_beta split: prod.splits sum.splits option.splits)

lemma process_file_preview_disk:
  "preview cfg \<Longrightarrow> disk (process_file e cfg st root filename) = disk st"
  using try_body_preview_disk [of cfg e st root filename]
  by (auto simp: process_file_def split: prod.splits option.splits)

lemma process_files_preview_disk:
  "preview cfg \<Longrightarrow> disk (process_files e cfg st root filenames) = disk st"
  by (induction filenames arbitrary: st) (simp_all add: process_file_preview_disk)

lemma walk_loop_preview_disk:
  "preview cfg \<Longrightarrow> disk (walk_loop e cfg st walk) = disk st"
  by (induction walk arbitrary: st) (auto simp: process_files_preview_disk)

lemma organize_preview_disk:
  "snd (organize_files_by_type e source_dir destination True date_flag duplicates d walk) = d"
  by (simp add: organize_files_by_type_def Let_def walk_loop_preview_disk)

lemma try_body_skipped:
  assumes "plan_target_dir e cfg (disk st) (path_join root filename)
             (get_category_for_extension (snd (splitext filename))) = (Inr target_dir, d1)"
    and "resolve_target e cfg d1 (file_hashes st) (path_join root filename) target_dir filename
           = (None, hashes')"
  shows "try_body e cfg st root filename =
           (None, st\<lparr>stats := count_skipped ((stats st)\<lparr>kategorien := init_category
                            (get_category_for_extension (snd (splitext filename)))
                            (kategorien (stats st))\<rparr>),
                     file_hashes := hashes', disk := d1\<rparr>)"
  using assms by (simp add: try_body_def Let_def split_beta)

lemma resolve_target_same_reads:
  assumes "path_exists d0 (path_join target_dir filename)
             = path_exists d1 (path_join target_dir filename)"
    and "path_exists d1 (path_join target_dir filename) \<longrightarrow>
           get_file_hash e d0 source_path = get_file_hash e d1 source_path"
    and "handle_duplicates cfg0 = handle_duplicates cfg1"
  shows "resolve_target e cfg0 d0 hashes source_path target_dir filename
         = resolve_target e cfg1 d1 hashes source_path target_dir filename"
proof (cases "path_exists d1 (path_join target_dir filename)")
  case True
  with assms have "path_exists d0 (path_join target_dir filename)"
    and "get_file_hash e d0 source_path = get_file_hash e d1 source_path" by simp_all
  with True assms(3) show ?thesis by (auto simp: resolve_target_def Let_def)
next
  case False
  with assms have "\<not> path_exists d0 (path_join target_dir filename)" by simp
  with False show ?thesis by (simp add: resolve_target_def)
qed


lemma undisturbed_step:
  assumes np: "\<not> preview cfg"
    and u: "undisturbed_file e cfg d0 st root filename"
    and s: "stats sp = stats st" and h: "file_hashes sp = file_hashes st" and d: "disk sp = d0"
  shows "stats (process_file e (cfg\<lparr>preview := True\<rparr>) sp root filename)
           = stats (process_file e cfg st root filename)
       \<and> file_hashes (process_file e (cfg\<lparr>preview := True\<rparr>) sp root filename)
           = file_hashes (process_file e cfg st root filename)
       \<and> disk (process_file e (cfg\<lparr>preview := True\<rparr>) sp root filename) = d0"
proof (cases "already_organized root")
  case True
  with s h d show ?thesis by (simp add: process_file_def)
next
  case False
  let ?cp = "cfg\<lparr>preview := True\<rparr>"
  let ?src = "path_join root filename"
  let ?cat = "get_category_for_extension (snd (splitext filename))"
  obtain r0 dp where p0: "plan_target_dir e ?cp d0 ?src ?cat = (r0, dp)"
    by (cases "plan_target_dir e ?cp d0 ?src ?cat")
  have dp: "dp = d0" using plan_target_dir_preview [of ?cp e d0 ?src ?cat] p0 by simp
  obtain r1 d1 where p1: "plan_target_dir e cfg (disk st) ?src ?cat = (r1, d1)"
    by (cases "plan_target_dir e cfg (disk st) ?src ?cat")
  show ?thesis
  proof (cases r0)
    case (Inl err0)
    with u False p0 p1 obtain err where r1: "r1 = Inl err"
      by (cases r1) (auto simp: undisturbed_file_def Let_def)
    from Inl p0 dp d have "try_body e ?cp sp root filename =
        (Some err0, sp\<lparr>stats := (stats sp)\<lparr>kategorien := init_category ?cat (kategorien (stats sp))\<rparr>,
                       disk := d0\<rparr>)"
      by (simp add: try_body_plan_raised)
    moreover from r1 p1 have "try_body e cfg st root filename =
        (Some err, st\<lparr>stats := (stats st)\<lparr>kategorien := init_category ?cat (kategorien (stats st))\<rparr>,
                      disk := d1\<rparr>)"
      by (simp add: try_body_plan_raised)
    ultimately show ?thesis using False s h by (simp add: process_file_raised)
  next
    case (Inr t0)
    with u False p0 p1 obtain t where r1: "r1 = Inr t"
      by (cases r1) (auto simp: undisturbed_file_def Let_def)
    from u False p0 p1 Inr r1 have t: "t0 = t"
      and ex: "path_exists d0 (path_join t filename) = path_exists d1 (path_join t filename)"
      and hs: "path_exists d1 (path_join t filename) \<longrightarrow>
                 get_file_hash e d0 ?src = get_file_hash e d1 ?src"
      and mv: "case fst (resolve_target e cfg d1 (file_hashes st) ?src t filename) of
                 None \<Rightarrow> True
               | Some target_path \<Rightarrow> fst (move d1 ?src target_path) = None"
      by (simp_all add: undisturbed_file_def Let_def)
    have same: "resolve_target e ?cp d0 (file_hashes st) ?src t filename
                = resolve_target e cfg d1 (file_hashes st) ?src t filename"
      using ex hs by (rule resolve_target_same_reads) simp
    obtain tp hashes' where rs: "resolve_target e cfg d1 (file_hashes st) ?src t filename
        = (tp, hashes')"
      by (cases "resolve_target e cfg d1 (file_hashes st) ?src t filename")
    have pp: "plan_target_dir e ?cp (disk sp) ?src ?cat = (Inr t, d0)"
      using p0 Inr t dp d by simp
    have pr: "plan_target_dir e cfg (disk st) ?src ?cat = (Inr t, d1)"
      using p1 r1 by simp
    show ?thesis
    proof (cases tp)
      case None
      with rs same h have "resolve_target e ?cp d0 (file_hashes sp) ?src t filename = (None, hashes')"
        by simp
      from try_body_skipped [OF pp this] try_body_skipped [OF pr rs [unfolded None]] False s
      show ?thesis by (simp add: process_file_result)
    next
      case (Some target_path)
      with rs same h have rp: "resolve_target e ?cp d0 (file_hashes sp) ?src t filename
          = (Some target_path, hashes')"
        by simp
      from mv rs Some obtain d2 where m: "move d1 ?src target_path = (None, d2)"
        by (cases "move d1 ?src target_path") simp
      from try_body_resolved [OF pp rp] try_body_move [OF pr rs [unfolded Some] np m] False s
      show ?thesis by (simp add: process_file_result)
    qed
  qed
qed

lemma undisturbed_files_agree:
  assumes "\<not> preview cfg"
  shows "undisturbed_files e cfg d0 st root filenames \<Longrightarrow>
     stats sp = stats st \<Longrightarrow> file_hashes sp = file_hashes st \<Longrightarrow> disk sp = d0 \<Longrightarrow>
     stats (process_files e (cfg\<lparr>preview := True\<rparr>) sp root filenames)
       = stats (process_files e cfg st root filenames)
     \<and> file_hashes (process_files e (cfg\<lparr>preview := True\<rparr>) sp root filenames)
       = file_hashes (process_files e cfg st root filenames)
     \<and> disk (process_files e (cfg\<lparr>preview := True\<rparr>) sp root filenames) = d0"
proof (induction filenames arbitrary: sp st)
  case Nil
  then show ?case by simp
next
  case (Cons filename rest)
  from Cons.prems have u: "undisturbed_file e cfg d0 st root filename"
    and r: "undisturbed_files e cfg d0 (process_file e cfg st root filename) root rest"
    by simp_all
  from undisturbed_step [OF assms u Cons.prems(2,3,4)]
  have a: "stats (process_file e (cfg\<lparr>preview := True\<rparr>) sp root filename)
           = stats (process_file e cfg st root filename)"
    and b: "file_hashes (process_file e (cfg\<lparr>preview := True\<rparr>) sp root filename)
           = file_hashes (process_file e cfg st root filename)"
    and c: "disk (process_file e (cfg\<lparr>preview := True\<rparr>) sp root filename) = d0"
    by simp_all
  from Cons.IH [OF r a b c] show ?case by simp
qed

lemma undisturbed_walk_agree:
  assumes "\<not> preview cfg"
  shows "undisturbed_walk e cfg d0 st walk \<Longrightarrow>
     stats sp = stats st \<Longrightarrow> file_hashes sp = file_hashes st \<Longrightarrow> disk sp = d0 \<Longrightarrow>
     stats (walk_loop e (cfg\<lparr>preview := True\<rparr>) sp walk) = stats (walk_loop e cfg st walk)"
proof (induction walk arbitrary: sp st)
  case Nil
  then show ?case by simp
next
  case (Cons entry rest)
  obtain root filenames where entry: "entry = (root, filenames)" by (cases entry)
  from Cons.prems entry have u: "undisturbed_files e cfg d0 st root filenames"
    and r: "undisturbed_walk e cfg d0 (process_files e cfg st root filenames) rest"
    by simp_all
  from undisturbed_files_agree [OF assms u Cons.prems(2,3,4)]
  have a: "stats (process_files e (cfg\<lparr>preview := True\<rparr>) sp root filenames)
       = stats (process_files e cfg st root filenames)"
    and b: "file_hashes (process_files e (cfg\<lparr>preview := True\<rparr>) sp root filenames)
       = file_hashes (process_files e cfg st root filenames)"
    and c: "disk (process_files e (cfg\<lparr>preview := True\<rparr>) sp root filenames) = d0"
    by simp_all
  from Cons.IH [OF r a b c] entry show ?case by simp
qed


section \<open>Three copies of one file\<close>

lemmas triple_defs = triple_tree_def triple_tree_ready_def triple_tree_first_def
  triple_tree_second_def triple_dirs_def out_dirs_def

lemma resolve_target_skip:
  "path_exists d (path_join target_dir filename) \<Longrightarrow>
   truthy (get_file_hash e d source_path) \<Longrightarrow>
   hashes (get_file_hash e d source_path) \<noteq> None \<Longrightarrow>
   handle_duplicates cfg = ''skip'' \<Longrightarrow>
     resolve_target e cfg d hashes source_path target_dir filename = (None, hashes)"
  by (simp add: resolve_target_def Let_def)

lemma src_c: "\<not> already_organized ''src/c''"
  by (simp add: already_organized_def category_names_def FILE_CATEGORIES_def sublist_code)

lemma triple_ready:
  "create_category_dirs triple_tree ''out'' category_names = (None, triple_tree_ready)"
  by (auto simp: triple_defs category_names_def FILE_CATEGORIES_def
      create_directory_if_not_exists_def makedirs_def path_exists_def path_join_def ancestors_def)

lemma triple_move_first:
  "move triple_tree_ready ''src/a/x.txt'' ''out/Dokumente/x.txt'' = (None, triple_tree_first)"
  by (auto simp: move_def os_rename_def triple_defs dirname_x path_exists_def fun_eq_iff)

lemma triple_move_second:
  "move triple_tree_first ''src/b/x.txt'' ''out/Dokumente/x.txt'' = (None, triple_tree_second)"
  by (auto simp: move_def os_rename_def triple_defs dirname_x path_exists_def fun_eq_iff)

lemma x_paths:
  "path_join ''src/a'' ''x.txt'' = ''src/a/x.txt''"
  "path_join ''src/b'' ''x.txt'' = ''src/b/x.txt''"
  "path_join ''src/c'' ''x.txt'' = ''src/c/x.txt''"
  "path_join ''out/Dokumente'' ''x.txt'' = ''out/Dokumente/x.txt''"
  by (simp_all add: path_join_def)

lemma twin_plan:
  "plan_target_dir example_env (twin_config strategy) d (path_join root ''x.txt'')
     (get_category_for_extension (snd (splitext ''x.txt''))) = (Inr ''out/Dokumente'', d)"
  by (simp add: plan_target_dir_plain twin_config_def x_txt) (simp add: path_join_def)

lemma triple_first_step:
  "process_file example_env (twin_config strategy)
     \<lparr>stats = initial_stats, file_hashes = Map.empty, disk = triple_tree_ready\<rparr> ''src/a'' ''x.txt''
   = \<lparr>stats = \<lparr>verschoben = 1, uebersprungen = 0, fehler = 0, kategorien = [(''Dokumente'', 1)]\<rparr>,
      file_hashes = Map.empty, disk = triple_tree_first\<rparr>"
proof -
  let ?st = "\<lparr>stats = initial_stats, file_hashes = Map.empty, disk = triple_tree_ready\<rparr>"
  have "\<not> path_exists triple_tree_ready (path_join ''out/Dokumente'' ''x.txt'')"
    by (simp add: x_paths path_exists_def triple_defs)
  then have r: "resolve_target example_env (twin_config strategy) triple_tree_ready (file_hashes ?st)
      (path_join ''src/a'' ''x.txt'') ''out/Dokumente'' ''x.txt''
      = (Some ''out/Dokumente/x.txt'', Map.empty)"
    by (simp add: resolve_target_fresh x_paths)
  have np: "\<not> preview (twin_config strategy)" by (simp add: twin_config_def)
  have m: "move triple_tree_ready (path_join ''src/a'' ''x.txt'') ''out/Dokumente/x.txt''
           = (None, triple_tree_first)"
    by (simp add: x_paths triple_move_first)
  have p: "plan_target_dir example_env (twin_config strategy) (disk ?st) (path_join ''src/a'' ''x.txt'')
     (get_category_for_extension (snd (splitext ''x.txt''))) = (Inr ''out/Dokumente'', triple_tree_ready)"
    by (simp add: twin_plan)
  from process_file_result [OF src_a try_body_move [OF p r np m]] show ?thesis
    by (simp add: x_txt count_moved_def init_category_def incr_category_def initial_stats_def)
qed

lemma triple_second_step:
  "process_file example_env (twin_config strategy)
     \<lparr>stats = \<lparr>verschoben = 1, uebersprungen = 0, fehler = 0, kategorien = [(''Dokumente'', 1)]\<rparr>,
      file_hashes = Map.empty, disk = triple_tree_first\<rparr> ''src/b'' ''x.txt''
   = \<lparr>stats = \<lparr>verschoben = 2, uebersprungen = 0, fehler = 0, kategorien = [(''Dokumente'', 2)]\<rparr>,
      file_hashes = [Some ''md5:hello'' \<mapsto> ''out/Dokumente/x.txt''], disk = triple_tree_second\<rparr>"
proof -
  let ?st = "\<lparr>stats = \<lparr>verschoben = 1, uebersprungen = 0, fehler = 0, kategorien = [(''Dokumente'', 1)]\<rparr>,
      file_hashes = Map.empty, disk = triple_tree_first\<rparr>"
  have ex: "path_exists triple_tree_first (path_join ''out/Dokumente'' ''x.txt'')"
    by (simp add: x_paths path_exists_def triple_defs)
  have hv: "get_file_hash example_env triple_tree_first (path_join ''src/b'' ''x.txt'')
            = Some ''md5:hello''"
    by (simp add: x_paths get_file_hash_def triple_defs example_env_def example_file_def)
  then have nr: "\<not> (truthy (get_file_hash example_env triple_tree_first (path_join ''src/b'' ''x.txt''))
      \<and> file_hashes ?st (get_file_hash example_env triple_tree_first (path_join ''src/b'' ''x.txt''))
          \<noteq> None)"
    by simp
  have np: "\<not> preview (twin_config strategy)" by (simp add: twin_config_def)
  have m: "move triple_tree_first (path_join ''src/b'' ''x.txt'') (path_join ''out/Dokumente'' ''x.txt'')
           = (None, triple_tree_second)"
    by (simp add: x_paths triple_move_second)
  have p: "plan_target_dir example_env (twin_config strategy) (disk ?st) (path_join ''src/b'' ''x.txt'')
     (get_category_for_extension (snd (splitext ''x.txt''))) = (Inr ''out/Dokumente'', triple_tree_first)"
    by (simp add: twin_plan)
  from collision_unrecorded_step [OF src_b p ex nr np m] show ?thesis
    by (simp add: hv [unfolded x_paths] x_paths x_txt count_moved_def init_category_def
        incr_category_def)
qed

lemma triple_third_step_skip:
  "process_file example_env (twin_config ''skip'')
     \<lparr>stats = \<lparr>verschoben = 2, uebersprungen = 0, fehler = 0, kategorien = [(''Dokumente'', 2)]\<rparr>,
      file_hashes = [Some ''md5:hello'' \<mapsto> ''out/Dokumente/x.txt''], disk = triple_tree_second\<rparr>
     ''src/c'' ''x.txt''
   = \<lparr>stats = \<lparr>verschoben = 2, uebersprungen = 1, fehler = 0, kategorien = [(''Dokumente'', 2)]\<rparr>,
      file_hashes = [Some ''md5:hello'' \<mapsto> ''out/Dokumente/x.txt''], disk = triple_tree_second\<rparr>"
proof -
  let ?st = "\<lparr>stats = \<lparr>verschoben = 2, uebersprungen = 0, fehler = 0, kategorien = [(''Dokumente'', 2)]\<rparr>,
      file_hashes = [Some ''md5:hello'' \<mapsto> ''out/Dokumente/x.txt''], disk = triple_tree_second\<rparr>"
  have ex: "path_exists triple_tree_second (path_join ''out/Dokumente'' ''x.txt'')"
    by (simp add: x_paths path_exists_def triple_defs)
  have hv: "get_file_hash example_env triple_tree_second (path_join ''src/c'' ''x.txt'')
            = Some ''md5:hello''"
    by (simp add: x_paths get_file_hash_def triple_defs example_env_def example_file_def)
  have r: "resolve_target example_env (twin_config ''skip'') triple_tree_second (file_hashes ?st)
      (path_join ''src/c'' ''x.txt'') ''out/Dokumente'' ''x.txt''
      = (None, [Some ''md5:hello'' \<mapsto> ''out/Dokumente/x.txt''])"
    using resolve_target_skip [OF ex, of example_env "path_join ''src/c'' ''x.txt''"
        "file_hashes ?st" "twin_config ''skip''"]
    by (simp add: hv truthy_def twin_config_def)
  have p: "plan_target_dir example_env (twin_config ''skip'') (disk ?st) (path_join ''src/c'' ''x.txt'')
     (get_category_for_extension (snd (splitext ''x.txt''))) = (Inr ''out/Dokumente'', triple_tree_second)"
    by (simp add: twin_plan)
  from process_file_result [OF src_c try_body_skipped [OF p r]] show ?thesis
    by (simp add: x_txt count_skipped_def init_category_def)
qed

lemma triple_run_skip:
  "organize_files_by_type example_env ''src'' (Some ''out'') False False ''skip''
     triple_tree triple_walk
   = (Inr \<lparr>verschoben = 2, uebersprungen = 1, fehler = 0, kategorien = [(''Dokumente'', 2)]\<rparr>,
      triple_tree_second)"
  using triple_first_step [of "''skip''"] triple_second_step [of "''skip''"] triple_third_step_skip
  by (simp add: organize_files_by_type_def triple_ready triple_walk_def twin_config_def)


lemma process_file_preview_fresh:
  assumes "\<not> already_organized root" and "preview cfg" and "\<not> include_date cfg"
    and "\<not> path_exists (disk st)
           (path_join (path_join (destination_dir cfg)
              (get_category_for_extension (snd (splitext filename)))) filename)"
  shows "process_file e cfg st root filename =
           st\<lparr>stats := count_moved (get_category_for_extension (snd (splitext filename)))
                  ((stats st)\<lparr>kategorien := init_category
                      (get_category_for_extension (snd (splitext filename)))
                      (kategorien (stats st))\<rparr>)\<rparr>"
proof -
  let ?cat = "get_category_for_extension (snd (splitext filename))"
  have p: "plan_target_dir e cfg (disk st) (path_join root filename) ?cat
           = (Inr (path_join (destination_dir cfg) ?cat), disk st)"
    using assms(3) by (rule plan_target_dir_plain)
  have r: "resolve_target e cfg (disk st) (file_hashes st) (path_join root filename)
             (path_join (destination_dir cfg) ?cat) filename
           = (Some (path_join (path_join (destination_dir cfg) ?cat) filename), file_hashes st)"
    using assms(4) by (rule resolve_target_fresh)
  from try_body_resolved [OF p r] assms(1,2) show ?thesis
    by (simp add: process_file_def)
qed

lemma triple_preview_step:
  assumes "\<not> already_organized root"
  shows "process_file example_env
           \<lparr>destination_dir = ''out'', preview = True, include_date = False,
            handle_duplicates = strategy\<rparr>
           \<lparr>stats = \<lparr>verschoben = n, uebersprungen = 0, fehler = 0, kategorien = k\<rparr>,
            file_hashes = Map.empty, disk = triple_tree\<rparr> root ''x.txt''
         = \<lparr>stats = \<lparr>verschoben = n + 1, uebersprungen = 0, fehler = 0,
                      kategorien = incr_category ''Dokumente'' (init_category ''Dokumente'' k)\<rparr>,
            file_hashes = Map.empty, disk = triple_tree\<rparr>"
proof -
  have "\<not> path_exists triple_tree ''out/Dokumente/x.txt''"
    by (simp add: path_exists_def triple_defs)
  then have "\<not> path_exists triple_tree
           (path_join (path_join ''out'' (get_category_for_extension (snd (splitext ''x.txt''))))
              ''x.txt'')"
    by (simp add: x_txt) (simp add: path_join_def)
  with process_file_preview_fresh [OF assms, of
      "\<lparr>destination_dir = ''out'', preview = True, include_date = False,
        handle_duplicates = strategy\<rparr>"
      "\<lparr>stats = \<lparr>verschoben = n, uebersprungen = 0, fehler = 0, kategorien = k\<rparr>,
        file_hashes = Map.empty, disk = triple_tree\<rparr>" "''x.txt''" example_env]
  show ?thesis by (simp add: x_txt count_moved_def)
qed

lemma triple_preview_run:
  "organize_files_by_type example_env ''src'' (Some ''out'') True False strategy
     triple_tree triple_walk
   = (Inr \<lparr>verschoben = 3, uebersprungen = 0, fehler = 0, kategorien = [(''Dokumente'', 3)]\<rparr>,
      triple_tree)"
  by (simp add: organize_files_by_type_def triple_walk_def initial_stats_def
      triple_preview_step [OF src_a] triple_preview_step [OF src_b] triple_preview_step [OF src_c]
      init_category_def incr_category_def)

text \<open>
  Claim C5 as stated fails in its second half. With three copies of one file and strategy
  \<open>skip\<close>, the preview counts three moves: on the unchanged tree no target exists. The run
  that moves files counts two moves and one skipped file: its own first move makes the later
  files collide.
\<close>

theorem preview_statistics_differ:
  "snd (organize_files_by_type example_env ''src'' (Some ''out'') True False ''skip''
          triple_tree triple_walk) = triple_tree
   \<and> fst (organize_files_by_type example_env ''src'' (Some ''out'') True False ''skip''
          triple_tree triple_walk)
      = Inr \<lparr>verschoben = 3, uebersprungen = 0, fehler = 0, kategorien = [(''Dokumente'', 3)]\<rparr>
   \<and> fst (organize_files_by_type example_env ''src'' (Some ''out'') False False ''skip''
          triple_tree triple_walk)
      = Inr \<lparr>verschoben = 2, uebersprungen = 1, fehler = 0, kategorien = [(''Dokumente'', 2)]\<rparr>
   \<and> fst (organize_files_by_type example_env ''src'' (Some ''out'') True False ''skip''
          triple_tree triple_walk)
      \<noteq> fst (organize_files_by_type example_env ''src'' (Some ''out'') False False ''skip''
          triple_tree triple_walk)"
  by (simp add: triple_preview_run triple_run_skip)

text \<open>
  Claim C5, as amended. A run in preview mode performs no file system mutation: the tree after
  it is the tree before it. The statistics it returns are those of the actions planned on the
  unchanged initial tree; they equal the statistics of the run without preview on the same
  initial tree and walk provided that this run makes its category directories, that none of
  its directory creations and moves fails, and that every file is undisturbed: what decides its
  action (the modification time, the existence of the planned target, the content hash on a
  collision) reads the same on the tree as changed by then as on the initial tree.
\<close>

theorem preview_leaves_tree_and_agrees_when_undisturbed:
  "snd (organize_files_by_type e source_dir destination True date_flag duplicates d walk) = d
   \<and> (dest = (case destination of None \<Rightarrow> source_dir
                | Some p \<Rightarrow> if p = [] then source_dir else p)
       \<and> create_category_dirs d dest category_names = (None, d1)
       \<and> undisturbed_walk e
            \<lparr>destination_dir = dest, preview = False, include_date = date_flag,
             handle_duplicates = duplicates\<rparr> d
            \<lparr>stats = initial_stats, file_hashes = Map.empty, disk = d1\<rparr> walk
       \<longrightarrow> fst (organize_files_by_type e source_dir destination True date_flag duplicates d walk)
           = fst (organize_files_by_type e source_dir destination False date_flag duplicates d
                    walk))"
proof -
  let ?cfg = "\<lparr>destination_dir = dest, preview = False, include_date = date_flag,
               handle_duplicates = duplicates\<rparr>"
  have cp: "?cfg\<lparr>preview := True\<rparr>
            = \<lparr>destination_dir = dest, preview = True, include_date = date_flag,
               handle_duplicates = duplicates\<rparr>"
    by simp
  have np: "\<not> preview ?cfg" by simp
  have "fst (organize_files_by_type e source_dir destination True date_flag duplicates d walk)
           = fst (organize_files_by_type e source_dir destination False date_flag duplicates d
                    walk)"
    if a: "dest = (case destination of None \<Rightarrow> source_dir
                | Some p \<Rightarrow> if p = [] then source_dir else p)"
      and b: "create_category_dirs d dest category_names = (None, d1)"
      and c: "undisturbed_walk e ?cfg d
            \<lparr>stats = initial_stats, file_hashes = Map.empty, disk = d1\<rparr> walk"
  proof -
    have "stats (walk_loop e (?cfg\<lparr>preview := True\<rparr>)
              \<lparr>stats = initial_stats, file_hashes = Map.empty, disk = d\<rparr> walk)
        = stats (walk_loop e ?cfg \<lparr>stats = initial_stats, file_hashes = Map.empty, disk = d1\<rparr> walk)"
      by (rule undisturbed_walk_agree [OF np c]) simp_all
    with a b show ?thesis
      by (simp add: organize_files_by_type_def Let_def cp)
  qed
  with organize_preview_disk [of e source_dir destination date_flag duplicates d walk]
  show ?thesis by blast
qed


section \<open>An undisturbed run\<close>

lemmas plain_defs = plain_tree_def plain_tree_ready_def plain_tree_first_def
  plain_tree_second_def out_dirs_def

lemma undisturbed_file_fresh:
  assumes "\<not> include_date cfg"
    and "\<not> path_exists d0 (path_join (path_join (destination_dir cfg)
              (get_category_for_extension (snd (splitext filename)))) filename)"
    and "\<not> path_exists (disk st) (path_join (path_join (destination_dir cfg)
              (get_category_for_extension (snd (splitext filename)))) filename)"
    and "fst (move (disk st) (path_join root filename)
              (path_join (path_join (destination_dir cfg)
                 (get_category_for_extension (snd (splitext filename)))) filename)) = None"
  shows "undisturbed_file e cfg d0 st root filename"
  using assms
  by (simp add: undisturbed_file_def Let_def plan_target_dir_plain resolve_target_fresh)

lemma plain_ready:
  "create_category_dirs plain_tree ''out'' category_names = (None, plain_tree_ready)"
  by (auto simp: plain_defs category_names_def FILE_CATEGORIES_def
      create_directory_if_not_exists_def makedirs_def path_exists_def path_join_def ancestors_def)

lemma plain_targets:
  "path_join (path_join ''out'' (get_category_for_extension (snd (splitext ''a.txt'')))) ''a.txt''
     = ''out/Dokumente/a.txt''"
  "path_join (path_join ''out'' (get_category_for_extension (snd (splitext ''b.txt'')))) ''b.txt''
     = ''out/Dokumente/b.txt''"
  "path_join ''src'' ''a.txt'' = ''src/a.txt''"
  "path_join ''src'' ''b.txt'' = ''src/b.txt''"
  by (simp_all add: ab_txt) (simp_all add: path_join_def)

lemma plain_move_a:
  "move plain_tree_ready ''src/a.txt'' ''out/Dokumente/a.txt'' = (None, plain_tree_first)"
  by (auto simp: move_def os_rename_def plain_defs path_exists_def dirname_def rfind_def rstrip_sep_def
      fun_eq_iff)

lemma plain_move_b:
  "move plain_tree_first ''src/b.txt'' ''out/Dokumente/b.txt'' = (None, plain_tree_second)"
  by (auto simp: move_def os_rename_def plain_defs path_exists_def dirname_def rfind_def rstrip_sep_def
      fun_eq_iff)

lemma plain_step_a:
  "process_file example_env (twin_config strategy)
     \<lparr>stats = initial_stats, file_hashes = Map.empty, disk = plain_tree_ready\<rparr> ''src'' ''a.txt''
   = \<lparr>stats = \<lparr>verschoben = 1, uebersprungen = 0, fehler = 0, kategorien = [(''Dokumente'', 1)]\<rparr>,
      file_hashes = Map.empty, disk = plain_tree_first\<rparr>"
proof -
  let ?cfg = "twin_config strategy"
  let ?st = "\<lparr>stats = initial_stats, file_hashes = Map.empty, disk = plain_tree_ready\<rparr>"
  have p: "plan_target_dir example_env ?cfg (disk ?st) (path_join ''src'' ''a.txt'')
             (get_category_for_extension (snd (splitext ''a.txt'')))
           = (Inr ''out/Dokumente'', plain_tree_ready)"
    by (simp add: plan_target_dir_plain twin_config_def ab_txt) (simp add: path_join_def)
  have t: "path_join ''out/Dokumente'' ''a.txt'' = ''out/Dokumente/a.txt''"
    by (simp add: path_join_def)
  have "\<not> path_exists plain_tree_ready (path_join ''out/Dokumente'' ''a.txt'')"
    by (simp add: t path_exists_def plain_defs)
  then have r: "resolve_target example_env ?cfg plain_tree_ready (file_hashes ?st)
      (path_join ''src'' ''a.txt'') ''out/Dokumente'' ''a.txt'' = (Some ''out/Dokumente/a.txt'', Map.empty)"
    by (simp add: resolve_target_fresh t)
  have np: "\<not> preview ?cfg" by (simp add: twin_config_def)
  have m: "move plain_tree_ready (path_join ''src'' ''a.txt'') ''out/Dokumente/a.txt''
           = (None, plain_tree_first)"
    by (simp add: plain_targets plain_move_a)
  from process_file_result [OF src_root try_body_move [OF p r np m]] show ?thesis
    by (simp add: ab_txt count_moved_def init_category_def incr_category_def initial_stats_def)
qed

lemma plain_step_b:
  "process_file example_env (twin_config strategy)
     \<lparr>stats = \<lparr>verschoben = 1, uebersprungen = 0, fehler = 0, kategorien = [(''Dokumente'', 1)]\<rparr>,
      file_hashes = Map.empty, disk = plain_tree_first\<rparr> ''src'' ''b.txt''
   = \<lparr>stats = \<lparr>verschoben = 2, uebersprungen = 0, fehler = 0, kategorien = [(''Dokumente'', 2)]\<rparr>,
      file_hashes = Map.empty, disk = plain_tree_second\<rparr>"
proof -
  let ?cfg = "twin_config strategy"
  let ?st = "\<lparr>stats = \<lparr>verschoben = 1, uebersprungen = 0, fehler = 0, kategorien = [(''Dokumente'', 1)]\<rparr>,
      file_hashes = Map.empty, disk = plain_tree_first\<rparr>"
  have p: "plan_target_dir example_env ?cfg (disk ?st) (path_join ''src'' ''b.txt'')
             (get_category_for_extension (snd (splitext ''b.txt'')))
           = (Inr ''out/Dokumente'', plain_tree_first)"
    by (simp add: plan_target_dir_plain twin_config_def ab_txt) (simp add: path_join_def)
  have t: "path_join ''out/Dokumente'' ''b.txt'' = ''out/Dokumente/b.txt''"
    by (simp add: path_join_def)
  have "\<not> path_exists plain_tree_first (path_join ''out/Dokumente'' ''b.txt'')"
    by (simp add: t path_exists_def plain_defs)
  then have r: "resolve_target example_env ?cfg plain_tree_first (file_hashes ?st)
      (path_join ''src'' ''b.txt'') ''out/Dokumente'' ''b.txt'' = (Some ''out/Dokumente/b.txt'', Map.empty)"
    by (simp add: resolve_target_fresh t)
  have np: "\<not> preview ?cfg" by (simp add: twin_config_def)
  have m: "move plain_tree_first (path_join ''src'' ''b.txt'') ''out/Dokumente/b.txt''
           = (None, plain_tree_second)"
    by (simp add: plain_targets plain_move_b)
  from process_file_result [OF src_root try_body_move [OF p r np m]] show ?thesis
    by (simp add: ab_txt count_moved_def init_category_def incr_category_def)
qed

lemma plain_run:
  "organize_files_by_type example_env ''src'' (Some ''out'') False False strategy
     plain_tree plain_walk
   = (Inr \<lparr>verschoben = 2, uebersprungen = 0, fehler = 0, kategorien = [(''Dokumente'', 2)]\<rparr>,
      plain_tree_second)"
  using plain_step_a [of strategy] plain_step_b [of strategy]
  by (simp add: organize_files_by_type_def plain_ready plain_walk_def twin_config_def)

lemma plain_undisturbed:
  "undisturbed_walk example_env (twin_config strategy) plain_tree
     \<lparr>stats = initial_stats, file_hashes = Map.empty, disk = plain_tree_ready\<rparr> plain_walk"
proof -
  let ?cfg = "twin_config strategy"
  let ?st = "\<lparr>stats = initial_stats, file_hashes = Map.empty, disk = plain_tree_ready\<rparr>"
  let ?s1 = "\<lparr>stats = \<lparr>verschoben = 1, uebersprungen = 0, fehler = 0, kategorien = [(''Dokumente'', 1)]\<rparr>,
      file_hashes = Map.empty, disk = plain_tree_first\<rparr>"
  have nd: "\<not> include_date ?cfg" and dd: "destination_dir ?cfg = ''out''"
    by (simp_all add: twin_config_def)
  have a: "undisturbed_file example_env ?cfg plain_tree ?st ''src'' ''a.txt''"
    by (rule undisturbed_file_fresh [OF nd])
       (simp_all add: dd plain_targets plain_move_a, simp_all add: path_exists_def plain_defs)
  have b: "undisturbed_file example_env ?cfg plain_tree ?s1 ''src'' ''b.txt''"
    by (rule undisturbed_file_fresh [OF nd])
       (simp_all add: dd plain_targets plain_move_b, simp_all add: path_exists_def plain_defs)
  from a b show ?thesis
    by (simp add: plain_walk_def plain_step_a)
qed

theorem preview_leaves_tree_and_agrees_when_undisturbed_witness:
  "create_category_dirs plain_tree ''out'' category_names = (None, plain_tree_ready)
   \<and> undisturbed_walk example_env
        \<lparr>destination_dir = ''out'', preview = False, include_date = False,
         handle_duplicates = ''rename''\<rparr> plain_tree
        \<lparr>stats = initial_stats, file_hashes = Map.empty, disk = plain_tree_ready\<rparr> plain_walk
   \<and> snd (organize_files_by_type example_env ''src'' (Some ''out'') True False ''rename''
          plain_tree plain_walk) = plain_tree
   \<and> fst (organize_files_by_type example_env ''src'' (Some ''out'') True False ''rename''
          plain_tree plain_walk)
      = Inr \<lparr>verschoben = 2, uebersprungen = 0, fehler = 0, kategorien = [(''Dokumente'', 2)]\<rparr>
   \<and> fst (organize_files_by_type example_env ''src'' (Some ''out'') False False ''rename''
          plain_tree plain_walk)
      = Inr \<lparr>verschoben = 2, uebersprungen = 0, fehler = 0, kategorien = [(''Dokumente'', 2)]\<rparr>"
proof -
  have u: "undisturbed_walk example_env
        \<lparr>destination_dir = ''out'', preview = False, include_date = False,
         handle_duplicates = ''rename''\<rparr> plain_tree
        \<lparr>stats = initial_stats, file_hashes = Map.empty, disk = plain_tree_ready\<rparr> plain_walk"
    using plain_undisturbed [of "''rename''"] by (simp add: twin_config_def)
  have dest: "''out'' = (case Some ''out'' of None \<Rightarrow> ''src''
                | Some p \<Rightarrow> if p = [] then ''src'' else p)"
    by simp
  note inst = preview_leaves_tree_and_agrees_when_undisturbed [of example_env "''src''"
      "Some ''out''" False "''rename''" plain_tree plain_walk "''out''" plain_tree_ready]
  from inst have a: "snd (organize_files_by_type example_env ''src'' (Some ''out'') True False
      ''rename'' plain_tree plain_walk) = plain_tree"
    by blast
  from inst dest plain_ready u
  have "fst (organize_files_by_type example_env ''src'' (Some ''out'') True False ''rename''
          plain_tree plain_walk)
      = fst (organize_files_by_type example_env ''src'' (Some ''out'') False False ''rename''
          plain_tree plain_walk)"
    by blast
  with a u plain_ready plain_run [of "''rename''"] show ?thesis by simp
qed


section \<open>A run in place\<close>

lemmas inplace_defs = inplace_tree_def inplace_tree_ready_def inplace_tree_after_def
  inplace_dirs_def

lemma inplace_ready:
  "create_category_dirs inplace_tree ''src'' category_names = (None, inplace_tree_ready)"
  by (auto simp: inplace_defs category_names_def FILE_CATEGORIES_def
      create_directory_if_not_exists_def makedirs_def path_exists_def path_join_def ancestors_def)

lemma a_png: "get_category_for_extension (snd (splitext ''a.png'')) = ''Bilder''"
  by (simp add: splitext_def rfind_def get_category_for_extension_def FILE_CATEGORIES_def
      lower_char_def)

lemma src_bilder: "already_organized ''src/Bilder''"
  by (simp add: already_organized_def category_names_def FILE_CATEGORIES_def sublist_code)

lemma dirname_a_png: "dirname ''src/Bilder/a.png'' = ''src/Bilder''"
  by (simp add: dirname_def rfind_def rstrip_sep_def)

lemma inplace_move:
  "move inplace_tree_ready ''src/a.png'' ''src/Bilder/a.png'' = (None, inplace_tree_after)"
  by (auto simp: move_def os_rename_def inplace_defs dirname_a_png path_exists_def fun_eq_iff)

lemma inplace_first_step:
  "process_file example_env inplace_config
     \<lparr>stats = initial_stats, file_hashes = Map.empty, disk = inplace_tree_ready\<rparr> ''src'' ''a.png''
   = \<lparr>stats = \<lparr>verschoben = 1, uebersprungen = 0, fehler = 0, kategorien = [(''Bilder'', 1)]\<rparr>,
      file_hashes = [Some ''md5:new'' \<mapsto> ''src/Bilder/a.png''], disk = inplace_tree_after\<rparr>"
proof -
  let ?st = "\<lparr>stats = initial_stats, file_hashes = Map.empty, disk = inplace_tree_ready\<rparr>"
  have j: "path_join ''src'' ''a.png'' = ''src/a.png''" by (simp add: path_join_def)
  have t: "path_join ''src/Bilder'' ''a.png'' = ''src/Bilder/a.png''"
    by (simp add: path_join_def)
  have p: "plan_target_dir example_env inplace_config (disk ?st) (path_join ''src'' ''a.png'')
             (get_category_for_extension (snd (splitext ''a.png'')))
             = (Inr ''src/Bilder'', inplace_tree_ready)"
    by (simp add: plan_target_dir_plain inplace_config_def a_png) (simp add: path_join_def)
  have ex: "path_exists inplace_tree_ready (path_join ''src/Bilder'' ''a.png'')"
    by (simp add: path_exists_def inplace_defs t)
  have h: "get_file_hash example_env inplace_tree_ready ''src/a.png'' = Some ''md5:new''"
    by (simp add: get_file_hash_def inplace_defs example_env_def newer_file_def)
  have nr: "\<not> (truthy (get_file_hash example_env inplace_tree_ready (path_join ''src'' ''a.png''))
            \<and> file_hashes ?st (get_file_hash example_env inplace_tree_ready
                  (path_join ''src'' ''a.png'')) \<noteq> None)"
    by (simp add: j h)
  have np: "\<not> preview inplace_config" by (simp add: inplace_config_def)
  have mv: "move inplace_tree_ready (path_join ''src'' ''a.png'') (path_join ''src/Bilder'' ''a.png'')
            = (None, inplace_tree_after)"
    by (simp add: j t inplace_move)
  from collision_unrecorded_step [OF src_root p ex nr np mv] show ?thesis
    by (simp add: j t a_png h count_moved_def init_category_def incr_category_def
        initial_stats_def)
qed

lemma inplace_second_step:
  "process_file example_env inplace_config
     \<lparr>stats = \<lparr>verschoben = 1, uebersprungen = 0, fehler = 0, kategorien = [(''Bilder'', 1)]\<rparr>,
      file_hashes = [Some ''md5:new'' \<mapsto> ''src/Bilder/a.png''], disk = inplace_tree_after\<rparr>
     ''src/Bilder'' ''a.png''
   = \<lparr>stats = \<lparr>verschoben = 1, uebersprungen = 1, fehler = 0, kategorien = [(''Bilder'', 1)]\<rparr>,
      file_hashes = [Some ''md5:new'' \<mapsto> ''src/Bilder/a.png''], disk = inplace_tree_after\<rparr>"
  by (simp add: process_file_organized [OF src_bilder] count_skipped_def)

lemma inplace_run:
  "organize_files_by_type example_env ''src'' None False False ''rename'' inplace_tree inplace_walk
   = (Inr \<lparr>verschoben = 1, uebersprungen = 1, fehler = 0, kategorien = [(''Bilder'', 1)]\<rparr>,
      inplace_tree_after)"
  using inplace_first_step inplace_second_step
  by (simp add: organize_files_by_type_def inplace_ready inplace_walk_def inplace_config_def)

text \<open>
  Claim C7 as stated fails for a run. The source folder is organized in place: \<open>src/a.png\<close>
  is new, and \<open>src/Bilder/a.png\<close>, an older file, lies under the segment \<open>Bilder\<close>. The run
  moves the new file onto the older one, whose content is gone, and then counts the file at
  \<open>src/Bilder/a.png\<close> as skipped.
\<close>

theorem category_file_is_replaced_in_place:
  "''Bilder'' \<in> set category_names
   \<and> ''Bilder'' \<in> set (segments ''src/Bilder'')
   \<and> files inplace_tree ''src/Bilder/a.png'' = Some example_file
   \<and> organize_files_by_type example_env ''src'' None False False ''rename'' inplace_tree
        inplace_walk
      = (Inr \<lparr>verschoben = 1, uebersprungen = 1, fehler = 0, kategorien = [(''Bilder'', 1)]\<rparr>,
         inplace_tree_after)
   \<and> files inplace_tree_after ''src/Bilder/a.png'' = Some newer_file
   \<and> content newer_file \<noteq> content example_file"
proof -
  have a: "''Bilder'' \<in> set category_names"
    by (simp add: category_names_def FILE_CATEGORIES_def)
  have b: "''Bilder'' \<in> set (segments ''src/Bilder'')"
    by (simp add: segments_def)
  have c: "files inplace_tree ''src/Bilder/a.png'' = Some example_file"
    and d: "files inplace_tree_after ''src/Bilder/a.png'' = Some newer_file"
    by (simp_all add: inplace_defs)
  have e: "content newer_file \<noteq> content example_file"
    by (simp add: newer_file_def example_file_def)
  from a b c inplace_run d e show ?thesis by (intro conjI)
qed


section \<open>A target path that is a directory\<close>




end
